theory Spec2Isabelle
  imports Complex_Main "HOL-Library.Log_Nat" "HOL-Library.Char_ord" "HOL-Library.List_Lexorder"
begin

section \<open>JavaScript numbers: IEEE 754 binary64, round to nearest, ties to even\<close>

text \<open>
  Every \<^verbatim>\<open>number\<close> of the TypeScript sources is a binary64 value. A finite value is
  represented by the rational it denotes, and each arithmetic operation computes the exact
  rational result and rounds it once, as IEEE 754 prescribes. The two zeros are identified
  (\<^verbatim>\<open>-0 === 0\<close> holds in JavaScript, and a division by a zero takes the zero as \<^verbatim>\<open>+0\<close>).
\<close>

datatype double = Fin rat | PInf | NInf | NaN

definition pow2 :: "int \<Rightarrow> rat" where
  "pow2 e = (if 0 \<le> e then 2 ^ nat e else 1 / 2 ^ nat (- e))"

text \<open>
  Rounding works on a fraction \<open>p / q\<close> of integers (\<open>q\<close> positive) and uses integer
  arithmetic only. \<open>ilog2_frac n q\<close> is the binary exponent \<open>k\<close> of a positive fraction,
  \<open>2^k \<le> n / q < 2^(k+1)\<close>: the bit lengths give it up to one, and one comparison settles it.
\<close>

definition ilog2_frac :: "int \<Rightarrow> int \<Rightarrow> int" where
  "ilog2_frac n q =
     (let l = bitlen n - bitlen q
      in if (if 0 \<le> l then q * 2 ^ nat l \<le> n else q \<le> n * 2 ^ nat (- l)) then l else l - 1)"

text \<open>Nearest integer to \<open>num / den\<close> (both positive), a tie going to the even neighbour.\<close>

definition round_even :: "int \<Rightarrow> int \<Rightarrow> int" where
  "round_even num den =
     (let f = num div den; r = num mod den
      in if 2 * r < den then f
         else if den < 2 * r then f + 1
         else if even f then f else f + 1)"

text \<open>The value \<open>m * 2^e\<close>.\<close>

definition dyadic :: "int \<Rightarrow> int \<Rightarrow> rat" where
  "dyadic m e = of_int m * pow2 e"

text \<open>
  The numerator and the exponent of the denominator of \<open>m / 2^k\<close> in lowest terms: common
  factors of two are cancelled (used to evaluate \<open>dyadic\<close> without a greatest common divisor).
\<close>

function strip2 :: "int \<Rightarrow> int \<Rightarrow> int \<times> int" where
  "strip2 m k = (if k \<le> 0 \<or> odd m then (m, k) else strip2 (m div 2) (k - 1))"
  by pat_completeness auto
termination
  by (relation "measure (\<lambda>(m, k). nat k)") auto

declare strip2.simps [simp del]

text \<open>
  Rounding of the exact result \<open>p / q\<close> to binary64. The unit in the last place of a value
  with binary exponent \<open>k\<close> is \<open>2^e\<close> with \<open>e = k - 52\<close>, and never below \<open>2^(-1074)\<close>, where the
  subnormal numbers lie; the result is the multiple \<open>m * 2^e\<close> nearest to \<open>p / q\<close>. The
  largest finite value is \<open>(2^53 - 1) * 2^971\<close>, so a rounded magnitude (with \<open>m \<le> 2^53\<close>)
  overflows exactly when \<open>971 < e\<close>, or \<open>e = 971\<close> and \<open>m = 2^53\<close>.
\<close>

definition round_frac :: "int \<Rightarrow> int \<Rightarrow> double" where
  "round_frac p q =
     (if p = 0 then Fin 0
      else
        (let n = \<bar>p\<bar>;
             e = max (ilog2_frac n q - 52) (- 1074);
             m = (if e < 0 then round_even (n * 2 ^ nat (- e)) q
                  else round_even n (q * 2 ^ nat e))
         in if 971 < e \<or> (e = 971 \<and> 9007199254740992 \<le> m)
            then (if 0 < p then PInf else NInf)
            else Fin (dyadic (if 0 < p then m else - m) e)))"

definition rnd :: "rat \<Rightarrow> double" where
  "rnd x = (case quotient_of x of (p, q) \<Rightarrow> round_frac p q)"

text \<open>A decimal literal of the source denotes the nearest binary64 value.\<close>

definition lit :: "rat \<Rightarrow> double" where
  "lit x = rnd x"

fun fneg :: "double \<Rightarrow> double" where
  "fneg (Fin a) = Fin (- a)"
| "fneg PInf = NInf"
| "fneg NInf = PInf"
| "fneg NaN = NaN"

fun fadd :: "double \<Rightarrow> double \<Rightarrow> double" where
  "fadd (Fin a) (Fin b) =
     (case quotient_of a of (p1, q1) \<Rightarrow> case quotient_of b of (p2, q2) \<Rightarrow>
        round_frac (p1 * q2 + p2 * q1) (q1 * q2))"
| "fadd NaN _ = NaN"
| "fadd _ NaN = NaN"
| "fadd PInf NInf = NaN"
| "fadd NInf PInf = NaN"
| "fadd PInf _ = PInf"
| "fadd NInf _ = NInf"
| "fadd _ PInf = PInf"
| "fadd _ NInf = NInf"

definition fsub :: "double \<Rightarrow> double \<Rightarrow> double" where
  "fsub x y = fadd x (fneg y)"

text \<open>The sign of a value that is not NaN: \<open>-1\<close>, \<open>0\<close> or \<open>1\<close>.\<close>

fun fsign :: "double \<Rightarrow> int" where
  "fsign (Fin a) = (if a < 0 then - 1 else if a = 0 then 0 else 1)"
| "fsign PInf = 1"
| "fsign NInf = - 1"
| "fsign NaN = 0"

definition inf_of_sign :: "int \<Rightarrow> double" where
  "inf_of_sign s = (if s = 0 then NaN else if 0 < s then PInf else NInf)"

fun is_inf :: "double \<Rightarrow> bool" where
  "is_inf PInf = True"
| "is_inf NInf = True"
| "is_inf _ = False"

fun fmul :: "double \<Rightarrow> double \<Rightarrow> double" where
  "fmul (Fin a) (Fin b) =
     (case quotient_of a of (p1, q1) \<Rightarrow> case quotient_of b of (p2, q2) \<Rightarrow>
        round_frac (p1 * p2) (q1 * q2))"
| "fmul NaN _ = NaN"
| "fmul _ NaN = NaN"
| "fmul x y = inf_of_sign (fsign x * fsign y)"

fun fdiv :: "double \<Rightarrow> double \<Rightarrow> double" where
  "fdiv (Fin a) (Fin b) =
     (if b = 0 then inf_of_sign (fsign (Fin a))
      else (case quotient_of a of (p1, q1) \<Rightarrow> case quotient_of b of (p2, q2) \<Rightarrow>
        (if 0 < p2 then round_frac (p1 * q2) (q1 * p2)
         else round_frac (- (p1 * q2)) (q1 * (- p2)))))"
| "fdiv NaN _ = NaN"
| "fdiv _ NaN = NaN"
| "fdiv (Fin a) _ = Fin 0"
| "fdiv x (Fin b) = inf_of_sign (fsign x * (if b < 0 then - 1 else 1))"
| "fdiv _ _ = NaN"

text \<open>Comparisons: every comparison with NaN is false.\<close>

fun flt :: "double \<Rightarrow> double \<Rightarrow> bool" where
  "flt NaN _ = False"
| "flt _ NaN = False"
| "flt (Fin a) (Fin b) = (a < b)"
| "flt NInf y = (y \<noteq> NInf)"
| "flt x PInf = (x \<noteq> PInf)"
| "flt _ _ = False"

definition fgt :: "double \<Rightarrow> double \<Rightarrow> bool" where
  "fgt x y = flt y x"

definition feq :: "double \<Rightarrow> double \<Rightarrow> bool" where
  "feq x y = (x \<noteq> NaN \<and> x = y)"

definition fle :: "double \<Rightarrow> double \<Rightarrow> bool" where
  "fle x y = (flt x y \<or> feq x y)"

definition fge :: "double \<Rightarrow> double \<Rightarrow> bool" where
  "fge x y = fle y x"

text \<open>\<^verbatim>\<open>Math.max\<close>, \<^verbatim>\<open>Math.min\<close> and \<^verbatim>\<open>Math.abs\<close>: NaN is contagious.\<close>

definition Math_max :: "double \<Rightarrow> double \<Rightarrow> double" where
  "Math_max x y = (if x = NaN \<or> y = NaN then NaN else if flt x y then y else x)"

definition Math_min :: "double \<Rightarrow> double \<Rightarrow> double" where
  "Math_min x y = (if x = NaN \<or> y = NaN then NaN else if flt y x then y else x)"

fun Math_abs :: "double \<Rightarrow> double" where
  "Math_abs (Fin a) = Fin \<bar>a\<bar>"
| "Math_abs PInf = PInf"
| "Math_abs NInf = PInf"
| "Math_abs NaN = NaN"

text \<open>
  \<^verbatim>\<open>Math.sqrt\<close> is the correctly rounded square root. \<open>isqrt n\<close> is the integer square
  root. For a positive \<open>a = p / q\<close> with \<open>4^k \<le> a < 4^(k+1)\<close> the root lies in
  \<open>[2^k, 2^(k+1))\<close>, so its unit in the last place is \<open>2^e\<close> with \<open>e = k - 52\<close>; with
  \<open>s = a / 4^e = num / den\<close> and \<open>f\<close> the integer square root of \<open>s\<close>, the root of \<open>s\<close> is compared
  with the midpoint \<open>f + 1/2\<close> by comparing \<open>4 * s\<close> with \<open>(2 * f + 1)^2\<close>.
\<close>

function isqrt :: "int \<Rightarrow> int" where
  "isqrt n = (if n \<le> 0 then 0
              else (let r = 2 * isqrt (n div 4) in if (r + 1) * (r + 1) \<le> n then r + 1 else r))"
  by pat_completeness auto
termination
  by (relation "measure nat") auto

declare isqrt.simps [simp del]

definition sqrt_frac :: "int \<Rightarrow> int \<Rightarrow> double" where
  "sqrt_frac p q =
     (let e = ilog2_frac p q div 2 - 52;
          num = (if e < 0 then p * 2 ^ nat (- 2 * e) else p);
          den = (if e < 0 then q else q * 2 ^ nat (2 * e));
          f = isqrt (num div den);
          m = (if 4 * num < (4 * f * f + 4 * f + 1) * den then f
               else if (4 * f * f + 4 * f + 1) * den < 4 * num then f + 1
               else if even f then f else f + 1)
      in Fin (dyadic m e))"

fun Math_sqrt :: "double \<Rightarrow> double" where
  "Math_sqrt (Fin a) =
     (if a < 0 then NaN else if a = 0 then Fin 0
      else (case quotient_of a of (p, q) \<Rightarrow> sqrt_frac p q))"
| "Math_sqrt PInf = PInf"
| "Math_sqrt NInf = NaN"
| "Math_sqrt NaN = NaN"

text \<open>
  \<^verbatim>\<open>Math.floor\<close>, and the reading of a number as the index of \<^verbatim>\<open>slice\<close> on an array of
  length \<open>len\<close>: truncated, counted from the end when negative, and clamped to the array.
\<close>

fun Math_floor :: "double \<Rightarrow> double" where
  "Math_floor (Fin a) = Fin (of_int \<lfloor>a\<rfloor>)"
| "Math_floor x = x"

fun slice_index :: "double \<Rightarrow> nat \<Rightarrow> nat" where
  "slice_index (Fin a) len =
     (if a < 0 then nat (int len + \<lceil>a\<rceil>) else min (nat \<lfloor>a\<rfloor>) len)"
| "slice_index PInf len = len"
| "slice_index NInf len = 0"
| "slice_index NaN len = 0"

text \<open>
  \<^verbatim>\<open>xs.reduce((sum, v) => sum + v, 0)\<close>, the mean \<^verbatim>\<open>sum / xs.length\<close>, and the population
  variance \<^verbatim>\<open>xs.reduce((sum, v) => sum + (v - mean) ** 2, 0) / xs.length\<close>. The square
  \<^verbatim>\<open>d ** 2\<close> is the correctly rounded product \<open>d * d\<close>.
\<close>

definition nat_to_double :: "nat \<Rightarrow> double" where
  "nat_to_double n = Fin (of_nat n)"

definition sum_reduce :: "double list \<Rightarrow> double" where
  "sum_reduce xs = foldl fadd (Fin 0) xs"

definition mean_of :: "double list \<Rightarrow> double" where
  "mean_of xs = fdiv (sum_reduce xs) (nat_to_double (length xs))"

definition variance_of :: "double list \<Rightarrow> double \<Rightarrow> double" where
  "variance_of xs m =
     fdiv (foldl (\<lambda>sum v. fadd sum (fmul (fsub v m) (fsub v m))) (Fin 0) xs)
          (nat_to_double (length xs))"

text \<open>An instant (a \<^verbatim>\<open>Date\<close>, a timestamp column) is its number of milliseconds since the epoch.\<close>

type_synonym instant = int

section \<open>Exploration engine: \<^verbatim>\<open>adjustEpsilon\<close>\<close>

text \<open>
  The optional stage is \<open>None\<close> when the argument is absent; the empty string is falsy
  and takes the first return as well.
\<close>

definition adjustEpsilon :: "double \<Rightarrow> string option \<Rightarrow> double" where
  "adjustEpsilon baseEpsilon amiStage =
     (case amiStage of
        None \<Rightarrow> baseEpsilon
      | Some s \<Rightarrow>
          if s = [] then baseEpsilon
          else if s = ''search_growth'' \<or> s = ''buyer_interest'' then fmul baseEpsilon (lit (7 / 10))
          else if s = ''early_noise'' then fmul baseEpsilon (lit (6 / 5))
          else if s = ''media_amplification'' then fmul baseEpsilon (lit (3 / 2))
          else baseEpsilon)"

section \<open>Correlation engine: \<^verbatim>\<open>computeAMI\<close>\<close>

text \<open>
  A JavaScript object used as a dictionary is an association list in the order of
  \<^verbatim>\<open>Object.keys\<close>; an object has each key once. A length or a count read as a number
  (\<open>nat_to_double\<close>) is exact, since an array holds fewer than \<open>2^32\<close> elements.
\<close>

text \<open>\<^verbatim>\<open>obj[k] ?? 0\<close> on an object whose values are numbers.\<close>

definition get_or_zero :: "('k \<times> double) list \<Rightarrow> 'k \<Rightarrow> double" where
  "get_or_zero obj k = (case map_of obj k of None \<Rightarrow> Fin 0 | Some v \<Rightarrow> v)"

datatype AMIStage = early_noise | search_growth | buyer_interest | media_amplification

record AMIComponents =
  culturalSpikeScore :: double
  searchAccelerationScore :: double
  marketplaceRankDeltaScore :: double
  mediaAmplificationScore :: double

record AMIScore =
  ami :: double
  stage :: AMIStage
  ami_confidence :: double
  components :: AMIComponents
  layerScores :: "(int \<times> double) list"

definition weighted_ami :: "double \<Rightarrow> double \<Rightarrow> double \<Rightarrow> double \<Rightarrow> double" where
  "weighted_ami c s m d =
     fadd (fadd (fadd (fmul c (lit (1 / 5))) (fmul s (lit (3 / 10))))
                (fmul m (lit (1 / 4))))
          (fmul d (lit (1 / 4)))"

definition classify_stage :: "double \<Rightarrow> double \<Rightarrow> double \<Rightarrow> double \<Rightarrow> AMIStage" where
  "classify_stage c s m d =
     (if fgt c (lit (3 / 5)) \<and> flt s (lit (3 / 10)) then early_noise
      else if fgt s (lit (1 / 2)) then search_growth
      else if fgt m (lit (1 / 2)) then buyer_interest
      else if fgt d (lit (3 / 5)) then media_amplification
      else early_noise)"

definition layersWithData :: "(int \<times> double) list \<Rightarrow> nat" where
  "layersWithData layerSignals = length (filter (\<lambda>v. fgt v (Fin 0)) (map snd layerSignals))"

definition computeAMI :: "(int \<times> double) list \<Rightarrow> AMIScore" where
  "computeAMI layerSignals =
     (let c = get_or_zero layerSignals 1;
          s = get_or_zero layerSignals 2;
          m = get_or_zero layerSignals 3;
          d = get_or_zero layerSignals 4;
          a = weighted_ami c s m d;
          clampedAmi = Math_max (Fin 0) (Math_min (Fin 1) a);
          conf = Math_min (Fin 1)
                   (fadd (fmul (fdiv (nat_to_double (layersWithData layerSignals)) (Fin 4))
                               (lit (4 / 5)))
                         (lit (1 / 5)))
      in \<lparr> ami = clampedAmi, stage = classify_stage c s m d, ami_confidence = conf,
           components = \<lparr> culturalSpikeScore = c, searchAccelerationScore = s,
                          marketplaceRankDeltaScore = m, mediaAmplificationScore = d \<rparr>,
           layerScores = layerSignals \<rparr>)"

section \<open>Feature registry: \<^verbatim>\<open>normalizeFeatures\<close>\<close>

record FeatureStats =
  min_s :: double
  max_s :: double
  mean :: double
  stdDev :: double

text \<open>
  The loop over \<^verbatim>\<open>Object.entries(features)\<close> writes one entry per key, in the same order,
  with one exception: the assignment \<^verbatim>\<open>normalized["__proto__"] = x\<close> on the fresh object reaches
  the setter inherited from \<^verbatim>\<open>Object.prototype\<close>, which ignores a number, so a feature named
  \<^verbatim>\<open>__proto__\<close> leaves no entry. \<^verbatim>\<open>stats[key]\<close> is undefined (\<open>None\<close>) when the statistics have
  no such key; for a key that only \<^verbatim>\<open>Object.prototype\<close> has, the inherited member is read, whose
  \<^verbatim>\<open>max\<close> and \<^verbatim>\<open>min\<close> are both undefined, and the result is 0 as well.
\<close>

definition normalize_value :: "FeatureStats option \<Rightarrow> double \<Rightarrow> double" where
  "normalize_value st v =
     (case st of
        None \<Rightarrow> Fin 0
      | Some s \<Rightarrow>
          if feq (max_s s) (min_s s) then Fin 0
          else Math_max (Fin 0)
                 (Math_min (Fin 1) (fdiv (fsub v (min_s s)) (fsub (max_s s) (min_s s)))))"

definition normalizeFeatures ::
  "(string \<times> double) list \<Rightarrow> (string \<times> FeatureStats) list \<Rightarrow> (string \<times> double) list" where
  "normalizeFeatures features stats =
     map (\<lambda>(key, v). (key, normalize_value (map_of stats key) v))
         (filter (\<lambda>(key, v). key \<noteq> ''__proto__'') features)"

section \<open>Model training: \<^verbatim>\<open>classifyTier\<close> and \<^verbatim>\<open>predict\<close>\<close>

definition classifyTier :: "double \<Rightarrow> string" where
  "classifyTier v =
     (if fgt v (lit (7 / 10)) then ''top'' else if flt v (lit (3 / 10)) then ''low'' else ''mid'')"

text \<open>
  The loop of \<^verbatim>\<open>predict\<close> adds \<^verbatim>\<open>coefficients[i] * (featureVector[i] ?? 0)\<close> for each index of
  the coefficients, in order; an index beyond the feature vector reads as 0.
\<close>

fun predict_loop :: "double \<Rightarrow> double list \<Rightarrow> double list \<Rightarrow> double" where
  "predict_loop acc [] _ = acc"
| "predict_loop acc (c # cs) [] = predict_loop (fadd acc (fmul c (Fin 0))) cs []"
| "predict_loop acc (c # cs) (x # xs) = predict_loop (fadd acc (fmul c x)) cs xs"

definition predict :: "double list \<Rightarrow> double \<Rightarrow> double list \<Rightarrow> double" where
  "predict coefficients intercept featureVector = predict_loop intercept coefficients featureVector"

section \<open>Model training: matrices, \<^verbatim>\<open>splitData\<close> and \<^verbatim>\<open>trainModel\<close>\<close>

record DatasetRecord =
  normalizedFeatures :: "(string \<times> double) list"
  targetValue :: double
  createdAt_rec :: "instant option"

record TrainResult =
  coefficients :: "double list"
  intercept :: double
  featureNames :: "string list"
  rSquared :: double
  mae :: double
  tierAccuracy :: double
  directionalAccuracy :: double
  trainSampleCount :: nat
  testSampleCount :: nat

type_synonym Matrix = "double list list"

text \<open>
  Reading a number at an index beyond an array gives \<^verbatim>\<open>undefined\<close>, which is NaN in
  arithmetic; writing at the index just beyond an array extends it (an index further out
  would leave holes, which read as \<^verbatim>\<open>undefined\<close>). The matrices that \<^verbatim>\<open>trainModel\<close> builds are
  rectangular and non-empty, so every row read below exists; a missing row is read as the
  empty row here, where the source would throw.
\<close>

definition num_at :: "double list \<Rightarrow> nat \<Rightarrow> double" where
  "num_at xs j = (if j < length xs then xs ! j else NaN)"

definition row_at :: "Matrix \<Rightarrow> nat \<Rightarrow> double list" where
  "row_at a i = (if i < length a then a ! i else [])"

definition set_at :: "double list \<Rightarrow> nat \<Rightarrow> double \<Rightarrow> double list" where
  "set_at xs j v =
     (if j < length xs then xs[j := v] else xs @ replicate (j - length xs) NaN @ [v])"

definition matrixTranspose :: "Matrix \<Rightarrow> Matrix" where
  "matrixTranspose a =
     (let rows = length a; cols = length (row_at a 0)
      in map (\<lambda>j. map (\<lambda>i. num_at (row_at a i) j) [0..<rows]) [0..<cols])"

definition matrixMultiply :: "Matrix \<Rightarrow> Matrix \<Rightarrow> Matrix" where
  "matrixMultiply a b =
     (let aRows = length a; aCols = length (row_at a 0); bCols = length (row_at b 0)
      in map (\<lambda>i. map (\<lambda>j. foldl (\<lambda>sum k. fadd sum (fmul (num_at (row_at a i) k)
                                                           (num_at (row_at b k) j)))
                               (Fin 0) [0..<aCols])
                       [0..<bCols])
             [0..<aRows])"

text \<open>
  Gauss-Jordan elimination on the matrix augmented with the identity. The search for the
  pivot keeps the first row with the largest absolute value in the column; a pivot below
  \<open>1e-12\<close> makes the step write zeros at the indices \<open>col + n + i\<close> of the row, set its
  diagonal entry to 1 and go on to the next column.
\<close>

definition find_pivot :: "Matrix \<Rightarrow> nat \<Rightarrow> nat \<Rightarrow> double \<times> nat" where
  "find_pivot aug n col =
     foldl (\<lambda>(maxVal, maxRow) row.
              (let val = Math_abs (num_at (row_at aug row) col)
               in if fgt val maxVal then (val, row) else (maxVal, maxRow)))
           (Math_abs (num_at (row_at aug col) col), col) [Suc col..<n]"

definition singular_row :: "double list \<Rightarrow> nat \<Rightarrow> nat \<Rightarrow> double list" where
  "singular_row r n col =
     set_at (foldl (\<lambda>r i. set_at r (col + n + i) (Fin 0)) r [0..<n]) col (Fin 1)"

definition scale_row :: "double list \<Rightarrow> nat \<Rightarrow> double \<Rightarrow> double list" where
  "scale_row r n pivot = foldl (\<lambda>r j. set_at r j (fdiv (num_at r j) pivot)) r [0..<2 * n]"

definition eliminate_row :: "double list \<Rightarrow> double list \<Rightarrow> nat \<Rightarrow> nat \<Rightarrow> double list" where
  "eliminate_row r pivotRow n col =
     (let factor = num_at r col
      in foldl (\<lambda>r j. set_at r j (fsub (num_at r j) (fmul factor (num_at pivotRow j))))
               r [0..<2 * n])"

definition inverse_step :: "nat \<Rightarrow> Matrix \<Rightarrow> nat \<Rightarrow> Matrix" where
  "inverse_step n aug col =
     (case find_pivot aug n col of (maxVal, maxRow) \<Rightarrow>
        if flt maxVal (lit (1 / 1000000000000)) then
          aug[col := singular_row (row_at aug col) n col]
        else
          (let swapped = (if maxRow \<noteq> col
                          then aug[col := row_at aug maxRow, maxRow := row_at aug col]
                          else aug);
               pivot = num_at (row_at swapped col) col;
               scaled = swapped[col := scale_row (row_at swapped col) n pivot];
               pivotRow = row_at scaled col
           in map (\<lambda>row. if row = col then pivotRow
                           else eliminate_row (row_at scaled row) pivotRow n col)
                  [0..<n]))"

definition matrixInverse :: "Matrix \<Rightarrow> Matrix" where
  "matrixInverse a =
     (let n = length a;
          augmented = map (\<lambda>i. row_at a i @ map (\<lambda>j. if i = j then Fin 1 else Fin 0) [0..<n])
                          [0..<n];
          reduced = foldl (inverse_step n) augmented [0..<n]
      in map (\<lambda>i. drop n (row_at reduced i)) [0..<n])"

text \<open>
  \<^verbatim>\<open>features[name] ?? 0\<close> on an object whose own values are numbers and whose keys are
  strings: an absent key reads as 0, unless \<^verbatim>\<open>Object.prototype\<close> has a member of that name;
  the inherited member is not nullish and is NaN in arithmetic.
\<close>

definition Object_prototype_names :: "string list" where
  "Object_prototype_names =
     [''constructor'', ''__defineGetter__'', ''__defineSetter__'', ''hasOwnProperty'',
      ''__lookupGetter__'', ''__lookupSetter__'', ''isPrototypeOf'', ''propertyIsEnumerable'',
      ''toString'', ''valueOf'', ''__proto__'', ''toLocaleString'']"

definition feature_or_zero :: "(string \<times> double) list \<Rightarrow> string \<Rightarrow> double" where
  "feature_or_zero obj k =
     (case map_of obj k of
        Some v \<Rightarrow> v
      | None \<Rightarrow> if k \<in> set Object_prototype_names then NaN else Fin 0)"

text \<open>
  \<^verbatim>\<open>splitData\<close> sorts a copy of the records by creation time (an absent time counts as 0;
  the sort is stable) and cuts it at \<open>floor(n * trainRatio)\<close>. The time of a record is the
  instant of its \<^verbatim>\<open>createdAt\<close>, taken to be a valid date (an invalid one would make the
  comparator inconsistent and leave the order, not the sizes of the two slices, to the
  implementation).
\<close>

definition date_key :: "DatasetRecord \<Rightarrow> int" where
  "date_key r = (case createdAt_rec r of None \<Rightarrow> 0 | Some t \<Rightarrow> t)"

definition splitData :: "DatasetRecord list \<Rightarrow> double \<Rightarrow> DatasetRecord list \<times> DatasetRecord list" where
  "splitData records trainRatio =
     (let sorted = sort_key date_key records;
          splitIndex = Math_floor (fmul (nat_to_double (length sorted)) trainRatio);
          k = slice_index splitIndex (length sorted)
      in (take k sorted, drop k sorted))"

text \<open>
  The numeric sort \<^verbatim>\<open>[...xs].sort((a, b) => a - b)\<close> as a stable insertion sort (with a NaN
  in the array the comparator is inconsistent and JavaScript leaves the order to the
  implementation), and the median taken from it.
\<close>

fun num_insert :: "double \<Rightarrow> double list \<Rightarrow> double list" where
  "num_insert x [] = [x]"
| "num_insert x (y # ys) = (if flt x y then x # y # ys else y # num_insert x ys)"

definition num_sort :: "double list \<Rightarrow> double list" where
  "num_sort xs = foldl (\<lambda>acc x. num_insert x acc) [] xs"

definition median_of :: "double list \<Rightarrow> double" where
  "median_of xs =
     (let sorted = num_sort xs; mid = length sorted div 2
      in if length sorted mod 2 = 0
         then fdiv (fadd (num_at sorted (mid - 1)) (num_at sorted mid)) (Fin 2)
         else num_at sorted mid)"

text \<open>The result returned for fewer than three records.\<close>

definition insufficient_data :: TrainResult where
  "insufficient_data =
     \<lparr> coefficients = [], intercept = Fin 0, featureNames = [], rSquared = Fin 0, mae = Fin 0,
       tierAccuracy = Fin 0, directionalAccuracy = Fin 0, trainSampleCount = 0,
       testSampleCount = 0 \<rparr>"

definition count_where :: "('a \<Rightarrow> bool) \<Rightarrow> 'a list \<Rightarrow> double" where
  "count_where P xs = nat_to_double (length (filter P xs))"

definition trainModel :: "string \<Rightarrow> DatasetRecord list \<Rightarrow> TrainResult" where
  "trainModel datasetId records =
     (if length records < 3 then insufficient_data
      else
        (case splitData records (lit (4 / 5)) of (train, test) \<Rightarrow>
           if length train = 0 \<or> length test = 0 then
             insufficient_data\<lparr> trainSampleCount := length train, testSampleCount := length test \<rparr>
           else
             (let names = sort (map fst (normalizedFeatures (hd train)));
                  X = map (\<lambda>r. Fin 1 # map (feature_or_zero (normalizedFeatures r)) names) train;
                  y = map targetValue train;
                  Xt = matrixTranspose X;
                  XtX = matrixMultiply Xt X;
                  XtXinv = matrixInverse XtX;
                  yCol = map (\<lambda>v. [v]) y;
                  XtY = matrixMultiply Xt yCol;
                  beta = matrixMultiply XtXinv XtY;
                  icept = num_at (row_at beta 0) 0;
                  coeffs = map (\<lambda>row. num_at row 0) (drop 1 beta);
                  testPredictions =
                    map (\<lambda>r. predict coeffs icept (map (feature_or_zero (normalizedFeatures r)) names))
                        test;
                  testActuals = map targetValue test;
                  len = nat_to_double (length testActuals);
                  meanActual = fdiv (sum_reduce testActuals) len;
                  pairs = zip testActuals testPredictions;
                  ssRes = foldl (\<lambda>acc (a, p). fadd acc (fmul (fsub a p) (fsub a p))) (Fin 0) pairs;
                  ssTot = foldl (\<lambda>acc (a, p). fadd acc (fmul (fsub a meanActual) (fsub a meanActual)))
                            (Fin 0) pairs;
                  maeSum = foldl (\<lambda>acc (a, p). fadd acc (Math_abs (fsub a p))) (Fin 0) pairs;
                  r2 = (if fgt ssTot (Fin 0) then fsub (Fin 1) (fdiv ssRes ssTot) else Fin 0);
                  tierCorrectCount = count_where (\<lambda>(a, p). classifyTier p = classifyTier a) pairs;
                  medianActual = median_of testActuals;
                  directionalCorrect =
                    count_where (\<lambda>(a, p). fge p medianActual = fge a medianActual) pairs
              in \<lparr> coefficients = coeffs, intercept = icept, featureNames = names,
                   rSquared = r2, mae = fdiv maeSum len,
                   tierAccuracy = fdiv tierCorrectCount len,
                   directionalAccuracy = fdiv directionalCorrect len,
                   trainSampleCount = length train, testSampleCount = length test \<rparr>)))"

section \<open>Optimization: \<^verbatim>\<open>simulateDelta\<close> and \<^verbatim>\<open>optimizeFeatures\<close>\<close>

record OptimizationSuggestion =
  featureName :: string
  currentValue :: double
  suggestedValue :: double
  delta :: double
  predictedGain :: double
  suggestion_confidence :: double

record OptimizationResult =
  suggestions :: "OptimizationSuggestion list"
  currentPrediction :: double
  optimizedPrediction :: double
  totalProjectedLift :: double
  liftPercent :: double

text \<open>The error \<^verbatim>\<open>Invalid feature index: i\<close> that \<^verbatim>\<open>simulateDelta\<close> throws.\<close>

datatype exception = InvalidFeatureIndex nat

text \<open>
  \<^verbatim>\<open>simulateDelta\<close> takes the feature at position \<open>featureIndex\<close> of the keys of the feature
  object itself, adds the delta to its value in a copy, clamps it, and predicts from the
  values of the copy in the order of those keys.
\<close>

definition simulateDelta ::
  "(string \<times> double) list \<Rightarrow> nat \<Rightarrow> double \<Rightarrow> double list \<Rightarrow> double \<Rightarrow> exception + double" where
  "simulateDelta featureVector featureIndex dlt coeffs icept =
     (if length featureVector \<le> featureIndex then Inl (InvalidFeatureIndex featureIndex)
      else
        (let name = fst (featureVector ! featureIndex);
             clonedVector =
               map (\<lambda>(k, v). if k = name
                               then (k, Math_max (Fin 0) (Math_min (Fin 1) (fadd v dlt)))
                               else (k, v))
                   featureVector;
             featureArray = map snd clonedVector
         in Inr (predict coeffs icept featureArray)))"

text \<open>
  One turn of the loop of \<^verbatim>\<open>optimizeFeatures\<close>, given the two simulated predictions: the
  suggestion it pushes, if any. \<^verbatim>\<open>Math.max(...xs)\<close> of no numbers is \<open>-Infinity\<close>.
\<close>

definition suggestion_for ::
  "(string \<times> double) list \<Rightarrow> double list \<Rightarrow> string \<Rightarrow> nat \<Rightarrow> double \<Rightarrow> double \<Rightarrow> double
     \<Rightarrow> double \<Rightarrow> OptimizationSuggestion option" where
  "suggestion_for currentFeatures coeffs name i stepSize currentPred pos neg =
     (let current = feature_or_zero currentFeatures name;
          positiveGain = fsub pos currentPred;
          negativeGain = fsub neg currentPred;
          (suggested, gain) =
            (if fgt positiveGain negativeGain \<and> fgt positiveGain (Fin 0)
             then (Math_max (Fin 0) (Math_min (Fin 1) (fadd current stepSize)), positiveGain)
             else if fgt negativeGain (Fin 0)
             then (Math_max (Fin 0) (Math_min (Fin 1) (fsub current stepSize)), negativeGain)
             else (current, Fin 0))
      in if fgt gain (Fin 0) then
           (let coefficient = (if i < length coeffs then coeffs ! i else Fin 0);
                maxCoefficient = foldl Math_max NInf (map Math_abs coeffs);
                conf = (if \<not> feq maxCoefficient (Fin 0)
                        then Math_min (Fin 1) (fdiv (Math_abs coefficient) maxCoefficient)
                        else Fin 0)
            in Some \<lparr> featureName = name, currentValue = current, suggestedValue = suggested,
                      delta = fsub suggested current, predictedGain = gain,
                      suggestion_confidence = conf \<rparr>)
         else None)"

text \<open>The loop over the indices of \<^verbatim>\<open>featureNames\<close>; a throw of \<^verbatim>\<open>simulateDelta\<close> ends it.\<close>

fun collect_suggestions ::
  "(string \<times> double) list \<Rightarrow> double list \<Rightarrow> double \<Rightarrow> string list \<Rightarrow> double \<Rightarrow> double
     \<Rightarrow> nat list \<Rightarrow> exception + OptimizationSuggestion list" where
  "collect_suggestions currentFeatures coeffs icept names stepSize currentPred [] = Inr []"
| "collect_suggestions currentFeatures coeffs icept names stepSize currentPred (i # rest) =
     (case simulateDelta currentFeatures i stepSize coeffs icept of
        Inl ex \<Rightarrow> Inl ex
      | Inr pos \<Rightarrow>
          (case simulateDelta currentFeatures i (fneg stepSize) coeffs icept of
             Inl ex \<Rightarrow> Inl ex
           | Inr neg \<Rightarrow>
               (case collect_suggestions currentFeatures coeffs icept names stepSize
                       currentPred rest of
                  Inl ex \<Rightarrow> Inl ex
                | Inr others \<Rightarrow>
                    Inr ((case suggestion_for currentFeatures coeffs (names ! i) i stepSize
                                 currentPred pos neg of
                            None \<Rightarrow> []
                          | Some s \<Rightarrow> [s]) @ others))))"

text \<open>
  The stable sort \<^verbatim>\<open>suggestions.sort((a, b) => b.predictedGain - a.predictedGain)\<close>: an
  element goes before the first one that the comparator puts after it.
\<close>

fun gain_insert ::
  "OptimizationSuggestion \<Rightarrow> OptimizationSuggestion list \<Rightarrow> OptimizationSuggestion list" where
  "gain_insert x [] = [x]"
| "gain_insert x (y # ys) =
     (if flt (fsub (predictedGain y) (predictedGain x)) (Fin 0) then x # y # ys
      else y # gain_insert x ys)"

definition sort_by_gain :: "OptimizationSuggestion list \<Rightarrow> OptimizationSuggestion list" where
  "sort_by_gain xs = foldl (\<lambda>acc x. gain_insert x acc) [] xs"

definition optimizeFeatures ::
  "(string \<times> double) list \<Rightarrow> double list \<Rightarrow> double \<Rightarrow> string list \<Rightarrow> double
     \<Rightarrow> exception + OptimizationResult" where
  "optimizeFeatures currentFeatures coeffs icept names stepSize =
     (let currentPred = predict coeffs icept (map (feature_or_zero currentFeatures) names)
      in case collect_suggestions currentFeatures coeffs icept names stepSize currentPred
                [0..<length names] of
           Inl ex \<Rightarrow> Inl ex
         | Inr found \<Rightarrow>
             (let sorted = sort_by_gain found;
                  total = foldl (\<lambda>sum s. fadd sum (predictedGain s)) (Fin 0) sorted
              in Inr \<lparr> suggestions = sorted, currentPrediction = currentPred,
                       optimizedPrediction = fadd currentPred total,
                       totalProjectedLift = total,
                       liftPercent = (if \<not> feq currentPred (Fin 0)
                                      then fmul (fdiv total currentPred) (Fin 100)
                                      else Fin 0) \<rparr>))"

text \<open>The default \<^verbatim>\<open>stepSize = 0.05\<close>.\<close>

definition default_stepSize :: double where
  "default_stepSize = lit (1 / 20)"

section \<open>Numbers as decimal text: the \<^verbatim>\<open>real\<close> and \<^verbatim>\<open>jsonb\<close> columns\<close>

text \<open>
  The columns \<^verbatim>\<open>predicted_value\<close>, \<^verbatim>\<open>confidence\<close>, \<^verbatim>\<open>actual_value\<close>, \<^verbatim>\<open>error\<close> and
  \<^verbatim>\<open>absolute_error\<close> are declared \<^verbatim>\<open>real\<close>: PostgreSQL keeps a binary32 value there. A number
  goes to the database as the decimal text of \<^verbatim>\<open>Number.prototype.toString\<close>, the database reads
  the text to the nearest binary32 value, and the row that comes back carries the decimal
  text of the stored value, which \<^verbatim>\<open>parseFloat\<close> reads to the nearest binary64 value. Both
  texts are the shortest decimal that reads back to the value printed, and among these the
  one closest to it: ECMAScript prescribes this for a number, and PostgreSQL (from version
  12) prints a \<^verbatim>\<open>real\<close> so by default.
\<close>

definition pow10 :: "int \<Rightarrow> rat" where
  "pow10 e = (if 0 \<le> e then 10 ^ nat e else 1 / 10 ^ nat (- e))"

text \<open>
  \<open>ilog10_frac n q\<close> is the decimal exponent \<open>t\<close> of a positive fraction,
  \<open>10^t \<le> n / q < 10^(t+1)\<close>: the binary exponent times \<open>1233 / 4096\<close> (an approximation of
  the logarithm of 2) gives it up to one, and two comparisons settle it.
\<close>

definition ge_pow10 :: "int \<Rightarrow> int \<Rightarrow> int \<Rightarrow> bool" where
  "ge_pow10 n q t = (if 0 \<le> t then q * 10 ^ nat t \<le> n else q \<le> n * 10 ^ nat (- t))"

definition ilog10_frac :: "int \<Rightarrow> int \<Rightarrow> int" where
  "ilog10_frac n q =
     (let g = (ilog2_frac n q * 1233) div 4096
      in if ge_pow10 n q (g + 1) then g + 1 else if ge_pow10 n q g then g else g - 1)"

text \<open>
  Rounding of \<open>p / q\<close> to binary32: as for binary64, with 24 significant bits, the smallest
  unit in the last place \<open>2^(-149)\<close> and the largest finite value \<open>(2^24 - 1) * 2^104\<close>.
\<close>

definition round_frac32 :: "int \<Rightarrow> int \<Rightarrow> double" where
  "round_frac32 p q =
     (if p = 0 then Fin 0
      else
        (let n = \<bar>p\<bar>;
             e = max (ilog2_frac n q - 23) (- 149);
             m = (if e < 0 then round_even (n * 2 ^ nat (- e)) q
                  else round_even n (q * 2 ^ nat e))
         in if 104 < e \<or> (e = 104 \<and> 16777216 \<le> m)
            then (if 0 < p then PInf else NInf)
            else Fin (dyadic (if 0 < p then m else - m) e)))"

definition rnd32 :: "rat \<Rightarrow> double" where
  "rnd32 x = (case quotient_of x of (p, q) \<Rightarrow> round_frac32 p q)"

text \<open>
  The shortest decimal that the rounding \<open>R\<close> takes to the positive value \<open>r\<close> with decimal
  exponent \<open>t\<close>. With \<open>k\<close> significant digits the candidates are the two multiples of
  \<open>10^(t-k+1)\<close> around \<open>r\<close>; the search starts at one digit and stops at the first \<open>k\<close> with a
  candidate that reads back as \<open>r\<close>, taking the closer one when both do (the even one in a
  tie). Seventeen digits always suffice for binary64 and nine for binary32.
\<close>

fun shortest_digits :: "(rat \<Rightarrow> double) \<Rightarrow> rat \<Rightarrow> int \<Rightarrow> nat \<Rightarrow> int \<Rightarrow> rat" where
  "shortest_digits R r t 0 k = r"
| "shortest_digits R r t (Suc fuel) k =
     (let u = pow10 (t - k + 1);
          lo = \<lfloor>r / u\<rfloor>;
          dlo = of_int lo * u;
          dhi = of_int (lo + 1) * u;
          oklo = (R dlo = Fin r);
          okhi = (R dhi = Fin r)
      in if oklo \<and> okhi then
           (if r - dlo < dhi - r then dlo
            else if dhi - r < r - dlo then dhi
            else if even lo then dlo else dhi)
         else if oklo then dlo
         else if okhi then dhi
         else shortest_digits R r t fuel (k + 1))"

definition shortest_decimal :: "(rat \<Rightarrow> double) \<Rightarrow> nat \<Rightarrow> rat \<Rightarrow> rat" where
  "shortest_decimal R digits a =
     (if a = 0 then 0
      else (case quotient_of \<bar>a\<bar> of (p, q) \<Rightarrow>
              (if 0 < a then 1 else - 1)
                * shortest_digits R \<bar>a\<bar> (ilog10_frac p q) digits 1))"

text \<open>
  What a \<^verbatim>\<open>real\<close> column gives back for a number written to it. The database refuses a
  finite number that is too large for binary32, or that is not zero and rounds to zero
  (\<open>None\<close>: the statement fails with "out of range for type real"); NaN and the infinities
  are stored as they are.
\<close>

definition real_column :: "double \<Rightarrow> double option" where
  "real_column x =
     (case x of
        Fin a \<Rightarrow>
          (case rnd32 (shortest_decimal rnd 17 a) of
             Fin r \<Rightarrow> if r = 0 \<and> a \<noteq> 0 then None
                      else Some (rnd (shortest_decimal rnd32 9 r))
           | _ \<Rightarrow> None)
      | _ \<Rightarrow> Some x)"

text \<open>
  A number inside a JSON text (\<^verbatim>\<open>JSON.stringify\<close>, a \<^verbatim>\<open>jsonb\<close> column): a finite number is
  written by its shortest decimal and read back unchanged; NaN and the infinities are
  written as \<^verbatim>\<open>null\<close> (\<open>None\<close>).
\<close>

definition json_number :: "double \<Rightarrow> double option" where
  "json_number x = (case x of Fin a \<Rightarrow> Some (Fin a) | _ \<Rightarrow> None)"

section \<open>Prediction snapshots and validation (\<^verbatim>\<open>prediction.ts\<close>)\<close>

text \<open>
  The digest is symbolic: \<open>SHA256 p\<close> stands for
  the SHA-256 hex digest of \<^verbatim>\<open>JSON.stringify\<close> of the object \<open>p\<close>, and two digests are equal
  exactly when the JSON texts are (the collision-free idealisation). The hashed object
  has the keys \<^verbatim>\<open>featureVector\<close>, \<^verbatim>\<open>coefficients\<close>, \<^verbatim>\<open>predictedValue\<close>, \<^verbatim>\<open>timestamp\<close>, in this
  order; its numbers are those of the JSON text.
\<close>

datatype hash_payload = Payload "double option list" "double option list" "double option" instant

datatype digest = SHA256 hash_payload

text \<open>The rows of the tables \<^verbatim>\<open>model_snapshots\<close> and \<^verbatim>\<open>prediction_logs\<close>, as a query returns
  them; a nullable column is an option. The two \<^verbatim>\<open>jsonb\<close> columns hold arrays of JSON numbers,
  the \<^verbatim>\<open>real\<close> columns hold what \<open>real_column\<close> gives, the other columns keep the values they
  are given.\<close>

record ModelSnapshot =
  id_col :: string
  datasetId :: string
  modelId :: "string option"
  featureVector :: "double option list"
  coefficientsUsed :: "double option list"
  predictedValue :: double
  predictedTier :: "string option"
  confidence :: "double option"
  hashSignature :: digest
  uploadConfirmed :: bool
  uploadConfirmedAt :: "instant option"
  performanceTrackingStarted :: bool
  sourceId :: "string option"
  sourceType :: "string option"
  isLocked :: bool
  createdAt :: instant

record PredictionLog =
  log_id :: string
  log_snapshotId :: "string option"
  log_datasetId :: string
  log_modelId :: string
  log_predictedValue :: double
  log_predictedTier :: "string option"
  actualValue :: "double option"
  actualTier :: "string option"
  error :: "double option"
  absoluteError :: "double option"
  directionallyCorrect :: "bool option"
  tierCorrect :: "bool option"
  validatedAt :: "instant option"
  log_createdAt :: instant

record database =
  snapshots :: "ModelSnapshot list"
  logs :: "PredictionLog list"

text \<open>
  What the surroundings supply to a call: the reading of the application clock
  (\<^verbatim>\<open>new Date()\<close>), and the identifier (\<^verbatim>\<open>gen_random_uuid()\<close>) and the clock reading
  (\<^verbatim>\<open>now()\<close>) that the database gives to an inserted row.
\<close>

record env =
  appNow :: instant
  newId :: string
  dbNow :: instant

text \<open>\<^verbatim>\<open>x || null\<close> on an optional string: absent and empty both become null.\<close>

definition or_null :: "string option \<Rightarrow> string option" where
  "or_null x = (case x of None \<Rightarrow> None | Some t \<Rightarrow> if t = [] then None else Some t)"

text \<open>
  The failures of the calls: the error \<^verbatim>\<open>Snapshot not found\<close> that \<^verbatim>\<open>validatePrediction\<close>
  throws, and the rejection of an insert by the database for a number outside the range of
  a \<^verbatim>\<open>real\<close> column.
\<close>

datatype failure = SnapshotNotFound | NumericValueOutOfRange

text \<open>
  The hash is computed from the arguments, before the insert; the snapshot returned is the
  row that the insert returns.
\<close>

definition createPredictionSnapshot ::
  "database \<Rightarrow> env \<Rightarrow> string \<Rightarrow> string \<Rightarrow> double list \<Rightarrow> double list \<Rightarrow> double \<Rightarrow> string
     \<Rightarrow> double \<Rightarrow> string option \<Rightarrow> string option \<Rightarrow> failure + database \<times> ModelSnapshot" where
  "createPredictionSnapshot db e dsId mId fv coeffs pv tier conf srcId srcType =
     (let timestamp = appNow e;
          hashSig = SHA256 (Payload (map json_number fv) (map json_number coeffs)
                              (json_number pv) timestamp)
      in case real_column pv of
           None \<Rightarrow> Inl NumericValueOutOfRange
         | Some storedValue \<Rightarrow>
             (case real_column conf of
                None \<Rightarrow> Inl NumericValueOutOfRange
              | Some storedConfidence \<Rightarrow>
                  (let snapshot =
                         \<lparr> id_col = newId e, datasetId = dsId, modelId = Some mId,
                           featureVector = map json_number fv,
                           coefficientsUsed = map json_number coeffs,
                           predictedValue = storedValue, predictedTier = Some tier,
                           confidence = Some storedConfidence,
                           hashSignature = hashSig, uploadConfirmed = False,
                           uploadConfirmedAt = None, performanceTrackingStarted = False,
                           sourceId = or_null srcId, sourceType = or_null srcType,
                           isLocked = True, createdAt = dbNow e \<rparr>
                   in Inr (db\<lparr> snapshots := snapshots db @ [snapshot] \<rparr>, snapshot))))"



record validation =
  v_log :: PredictionLog
  v_predicted :: double
  v_actualValue :: double
  v_error :: double
  v_absoluteError :: double
  v_directionallyCorrect :: bool
  v_tierCorrect :: bool
  v_actualTier :: string

text \<open>\<^verbatim>\<open>snapshot.predictedTier || classifyTier(predicted)\<close>: a null or empty stored tier falls
  back to the tier of the predicted value.\<close>

definition tier_or_classify :: "string option \<Rightarrow> double \<Rightarrow> string" where
  "tier_or_classify t predicted =
     (case t of None \<Rightarrow> classifyTier predicted
              | Some x \<Rightarrow> if x = [] then classifyTier predicted else x)"

definition validatePrediction ::
  "database \<Rightarrow> env \<Rightarrow> string \<Rightarrow> double \<Rightarrow> failure + database \<times> validation" where
  "validatePrediction db e snapshotId actual =
     (case find (\<lambda>r. id_col r = snapshotId) (snapshots db) of
        None \<Rightarrow> Inl SnapshotNotFound
      | Some snapshot \<Rightarrow>
          (let predicted = predictedValue snapshot;
               err = fsub predicted actual;
               absErr = Math_abs err;
               dirCorrect = ((fge predicted (lit (1 / 2)) \<and> fge actual (lit (1 / 2)))
                             \<or> (flt predicted (lit (1 / 2)) \<and> flt actual (lit (1 / 2))));
               aTier = classifyTier actual;
               tCorrect = (tier_or_classify (predictedTier snapshot) predicted = aTier)
           in case real_column predicted of
                None \<Rightarrow> Inl NumericValueOutOfRange
              | Some storedPredicted \<Rightarrow>
             (case real_column actual of
                None \<Rightarrow> Inl NumericValueOutOfRange
              | Some storedActual \<Rightarrow>
             (case real_column err of
                None \<Rightarrow> Inl NumericValueOutOfRange
              | Some storedError \<Rightarrow>
             (case real_column absErr of
                None \<Rightarrow> Inl NumericValueOutOfRange
              | Some storedAbsoluteError \<Rightarrow>
                  (let log = \<lparr> log_id = newId e, log_snapshotId = Some snapshotId,
                               log_datasetId = datasetId snapshot,
                               log_modelId = (case modelId snapshot of None \<Rightarrow> [] | Some m \<Rightarrow> m),
                               log_predictedValue = storedPredicted,
                               log_predictedTier = predictedTier snapshot,
                               actualValue = Some storedActual, actualTier = Some aTier,
                               error = Some storedError,
                               absoluteError = Some storedAbsoluteError,
                               directionallyCorrect = Some dirCorrect,
                               tierCorrect = Some tCorrect,
                               validatedAt = Some (appNow e), log_createdAt = dbNow e \<rparr>
                   in Inr (db\<lparr> logs := logs db @ [log] \<rparr>,
                           \<lparr> v_log = log, v_predicted = predicted, v_actualValue = actual,
                             v_error = err, v_absoluteError = absErr,
                             v_directionallyCorrect = dirCorrect, v_tierCorrect = tCorrect,
                             v_actualTier = aTier \<rparr>)))))))"






section \<open>Correlation engine: \<^verbatim>\<open>computePearsonCorrelation\<close>\<close>

text \<open>The loop accumulates the three sums in index order, starting from 0.\<close>

fun pearson_sums ::
  "double \<Rightarrow> double \<Rightarrow> double \<times> double \<times> double \<Rightarrow> double list \<Rightarrow> double list
     \<Rightarrow> double \<times> double \<times> double" where
  "pearson_sums meanX meanY (covariance, varX, varY) (xi # xs) (yi # ys) =
     (let dx = fsub xi meanX; dy = fsub yi meanY
      in pearson_sums meanX meanY
           (fadd covariance (fmul dx dy), fadd varX (fmul dx dx), fadd varY (fmul dy dy)) xs ys)"
| "pearson_sums meanX meanY acc _ _ = acc"

definition computePearsonCorrelation :: "double list \<Rightarrow> double list \<Rightarrow> double" where
  "computePearsonCorrelation x y =
     (if length x \<noteq> length y \<or> length x = 0 then Fin 0
      else
        (let n = nat_to_double (length x);
             meanX = fdiv (sum_reduce x) n;
             meanY = fdiv (sum_reduce y) n;
             (covariance, varX, varY) = pearson_sums meanX meanY (Fin 0, Fin 0, Fin 0) x y;
             stdX = Math_sqrt (fdiv varX n);
             stdY = Math_sqrt (fdiv varY n)
         in if feq stdX (Fin 0) \<or> feq stdY (Fin 0) then Fin 0
            else Math_max (Fin (- 1))
                   (Math_min (Fin 1) (fdiv (fdiv covariance n) (fmul stdX stdY)))))"

section \<open>Drift detection: \<^verbatim>\<open>detectDrift\<close>\<close>

datatype DriftType = overestimation | engagement_drop

datatype Severity = sev_none | mild | moderate | severe

datatype Recommendation = rec_none | reduce_confidence | retrain | increase_exploration

text \<open>
  The \<^verbatim>\<open>details\<close> text is one of four templates around a formatted number; the model keeps
  the template and the number (the ratio times 100, or the deviation) and leaves the
  formatting of \<^verbatim>\<open>toFixed\<close> out.
\<close>

datatype Details =
    NoDetails
  | OverestimationAbove80 double
  | OverestimationAbove60 double
  | EngagementDropped double
  | NoSignificantDrift

record DriftStatus =
  driftDetected :: bool
  driftType :: "DriftType option"
  severity :: Severity
  recommendation :: Recommendation
  details :: Details

text \<open>
  \<^verbatim>\<open>xs.slice(-k)\<close> for an integer \<open>k\<close>: the last \<open>k\<close> elements when \<open>k\<close> is positive, the whole
  array when \<open>k = 0\<close>, and the array without its first \<open>-k\<close> elements when \<open>k\<close> is negative.
  \<^verbatim>\<open>xs.slice(0, -5)\<close> drops the last five elements.
\<close>

definition slice_last :: "'a list \<Rightarrow> int \<Rightarrow> 'a list" where
  "slice_last xs k =
     (if 0 < k then drop (length xs - nat k) xs else drop (nat (- k)) xs)"

definition is_overestimate :: "PredictionLog \<Rightarrow> bool" where
  "is_overestimate p =
     (case actualValue p of None \<Rightarrow> False | Some a \<Rightarrow> fgt (log_predictedValue p) a)"

text \<open>
  The drift route hands \<^verbatim>\<open>detectDrift\<close> objects that carry \<^verbatim>\<open>predictedValue\<close>, \<^verbatim>\<open>actualValue\<close> and
  \<^verbatim>\<open>error\<close> only; the other fields are absent.
\<close>

definition drift_entry :: "double \<Rightarrow> double option \<Rightarrow> double option \<Rightarrow> PredictionLog" where
  "drift_entry p a err =
     \<lparr> log_id = [], log_snapshotId = None, log_datasetId = [], log_modelId = [],
       log_predictedValue = p, log_predictedTier = None, actualValue = a, actualTier = None,
       error = err, absoluteError = None, directionallyCorrect = None, tierCorrect = None,
       validatedAt = None, log_createdAt = 0 \<rparr>"

definition detectDrift :: "PredictionLog list \<Rightarrow> int \<Rightarrow> DriftStatus" where
  "detectDrift predictions windowSize =
     (let result = \<lparr> driftDetected = False, driftType = None, severity = sev_none,
                     recommendation = rec_none, details = NoDetails \<rparr>
      in if length predictions = 0 then result
         else
          (let windowPredictions = slice_last predictions windowSize;
               overestimationCount = length (filter is_overestimate windowPredictions);
               validPredictions = filter (\<lambda>p. actualValue p \<noteq> None) windowPredictions;
               overestimationRatio = fdiv (nat_to_double overestimationCount)
                                          (nat_to_double (length validPredictions))
           in if 0 < length validPredictions \<and> fgt overestimationRatio (lit (4 / 5)) then
                \<lparr> driftDetected = True, driftType = Some overestimation, severity = severe,
                  recommendation = retrain,
                  details = OverestimationAbove80 (fmul overestimationRatio (Fin 100)) \<rparr>
              else if 0 < length validPredictions \<and> fgt overestimationRatio (lit (3 / 5)) then
                \<lparr> driftDetected = True, driftType = Some overestimation, severity = moderate,
                  recommendation = reduce_confidence,
                  details = OverestimationAbove60 (fmul overestimationRatio (Fin 100)) \<rparr>
              else
               (let actualValues = List.map_filter actualValue validPredictions;
                    recentValues = slice_last actualValues 5;
                    historicalValues = take (length actualValues - 5) actualValues;
                    historicalMean = mean_of historicalValues;
                    historicalStdDev = Math_sqrt (variance_of historicalValues historicalMean);
                    recentMean = mean_of recentValues;
                    deviations = fdiv (fsub historicalMean recentMean) historicalStdDev
                in if 5 \<le> length actualValues \<and> 2 \<le> length historicalValues
                      \<and> fgt historicalStdDev (Fin 0) \<and> fgt deviations (Fin 2) then
                     \<lparr> driftDetected = True, driftType = Some engagement_drop,
                       severity = (if fgt deviations (Fin 3) then severe else moderate),
                       recommendation = increase_exploration,
                       details = EngagementDropped deviations \<rparr>
                   else result\<lparr> details := NoSignificantDrift \<rparr>)))"

text \<open>
  For comparison, the reading under which the rules are applied to the most recent
  \<open>windowSize\<close> entries that have a validated actual value: the unvalidated entries are
  removed first, and the window is taken from what remains.
\<close>

definition detectDrift_over_validated :: "PredictionLog list \<Rightarrow> int \<Rightarrow> DriftStatus" where
  "detectDrift_over_validated predictions windowSize =
     detectDrift (filter (\<lambda>p. actualValue p \<noteq> None) predictions) windowSize"

section \<open>Evaluation of rounded values\<close>

text \<open>The fraction in lowest terms that \<open>quotient_of\<close> gives for a dyadic value.\<close>

lemma strip2_props:
  "0 \<le> k \<Longrightarrow> strip2 m k = (m', k') \<Longrightarrow>
     0 \<le> k' \<and> of_int m' * pow2 (- k') = (of_int m * pow2 (- k) :: rat) \<and> (k' = 0 \<or> odd m')"
proof (induction m k arbitrary: m' k' rule: strip2.induct)
  case (1 m k)
  show ?case
  proof (cases "k \<le> 0 \<or> odd m")
    case True
    with "1.prems" show ?thesis by (auto simp: strip2.simps [of m k])
  next
    case False
    then have k: "0 < k" and ev: "even m" by auto
    from False "1.prems" have s: "strip2 (m div 2) (k - 1) = (m', k')"
      by (simp add: strip2.simps [of m k])
    from "1.IH" [OF False _ s] k
    have ih: "0 \<le> k'" "of_int m' * pow2 (- k') = (of_int (m div 2) * pow2 (- (k - 1)) :: rat)"
      "k' = 0 \<or> odd m'" by auto
    from ev obtain c where c: "m = 2 * c" by (auto elim: evenE)
    have "nat k = Suc (nat (k - 1))" using k by simp
    then have "(2::rat) ^ nat k = 2 * 2 ^ nat (k - 1)" by simp
    then have "(of_int (m div 2) * pow2 (- (k - 1)) :: rat) = of_int m * pow2 (- k)"
      using k c by (simp add: pow2_def)
    with ih show ?thesis by simp
  qed
qed

lemma pow2_neg: "0 \<le> k \<Longrightarrow> pow2 (- k) = 1 / 2 ^ nat k"
  by (cases "k = 0") (simp_all add: pow2_def)

lemma quotient_of_dyadic [code abstract]:
  "quotient_of (dyadic m e) =
     (if 0 \<le> e then (m * 2 ^ nat e, 1)
      else (case strip2 m (- e) of (m', k') \<Rightarrow> (m', 2 ^ nat k')))"
proof (cases "0 \<le> e")
  case True
  have "dyadic m e = of_int (m * 2 ^ nat e)" using True by (simp add: dyadic_def pow2_def)
  then show ?thesis using True by (simp only: quotient_of_int Rat.of_int_def[symmetric]) simp
next
  case False
  obtain m' k' where s: "strip2 m (- e) = (m', k')" by (cases "strip2 m (- e)")
  from False strip2_props [OF _ s]
  have k': "0 \<le> k'" and v: "of_int m' * pow2 (- k') = (of_int m * pow2 e :: rat)"
    and o: "k' = 0 \<or> odd m'" by auto
  have "dyadic m e = of_int m' * pow2 (- k')" using v by (simp add: dyadic_def)
  also have "\<dots> = of_int m' / of_int (2 ^ nat k')" using k' by (simp add: pow2_neg)
  also have "\<dots> = Fract m' (2 ^ nat k')" by (simp add: Fract_of_int_quotient)
  finally have d: "dyadic m e = Fract m' (2 ^ nat k')" .
  have cop: "coprime m' (2 ^ nat k')"
  proof (cases "k' = 0")
    case True then show ?thesis by simp
  next
    case False
    with o have "odd m'" by simp
    then have "coprime m' 2" by (simp add: coprime_right_2_iff_odd)
    then show ?thesis by simp
  qed
  have "quotient_of (Fract m' (2 ^ nat k')) = (m', 2 ^ nat k')"
    using cop by (simp add: quotient_of_Fract normalize_stable)
  with d s False show ?thesis by simp
qed

section \<open>Properties of \<^verbatim>\<open>adjustEpsilon\<close>\<close>

lemma adjustEpsilon_search_015:
  "adjustEpsilon (lit (3 / 20)) (Some ''search_growth'') = lit (21 / 200)"
  by code_simp

lemma adjustEpsilon_media_015:
  "adjustEpsilon (lit (3 / 20)) (Some ''media_amplification'')
     = Fin (2026619832316723 / 9007199254740992)"
  by code_simp

lemma lit_0225: "lit (9 / 40) = Fin (8106479329266893 / 36028797018963968)"
  by code_simp

text \<open>
  Claim C8, as stated, fails on the code: the literal \<^verbatim>\<open>0.15\<close> times the literal \<^verbatim>\<open>1.5\<close>,
  rounded to binary64, is \<^verbatim>\<open>0.22499999999999998\<close>, not the value of the literal \<^verbatim>\<open>0.225\<close>.
\<close>

theorem adjustEpsilon_media_not_exact:
  "adjustEpsilon (lit (3 / 20)) (Some ''media_amplification'') \<noteq> lit (9 / 40)"
  by code_simp

text \<open>
  Claim C8, amended: for every base epsilon, \<^verbatim>\<open>adjustEpsilon\<close> returns the binary64 product of
  the base with 0.7 for \<^verbatim>\<open>search_growth\<close> and \<^verbatim>\<open>buyer_interest\<close>, with 1.2 for
  \<^verbatim>\<open>early_noise\<close>, with 1.5 for \<^verbatim>\<open>media_amplification\<close>, and the base unchanged for an
  absent or any other stage. \<^verbatim>\<open>adjustEpsilon(0.15, "search_growth")\<close> is exactly the value of
  \<^verbatim>\<open>0.105\<close>; \<^verbatim>\<open>adjustEpsilon(0.15, "media_amplification")\<close> is the binary64 value
  \<open>2026619832316723 / 2^53\<close> (printed \<^verbatim>\<open>0.22499999999999998\<close>), the one just below the value of
  \<^verbatim>\<open>0.225\<close>.
\<close>

theorem adjustEpsilon_factors:
  "adjustEpsilon b (Some ''search_growth'') = fmul b (lit (7 / 10))
   \<and> adjustEpsilon b (Some ''buyer_interest'') = fmul b (lit (7 / 10))
   \<and> adjustEpsilon b (Some ''early_noise'') = fmul b (lit (6 / 5))
   \<and> adjustEpsilon b (Some ''media_amplification'') = fmul b (lit (3 / 2))
   \<and> adjustEpsilon b None = b
   \<and> (s \<notin> {''search_growth'', ''buyer_interest'', ''early_noise'', ''media_amplification''}
        \<longrightarrow> adjustEpsilon b (Some s) = b)
   \<and> adjustEpsilon (lit (3 / 20)) (Some ''search_growth'') = lit (21 / 200)
   \<and> adjustEpsilon (lit (3 / 20)) (Some ''media_amplification'')
        = Fin (2026619832316723 / 9007199254740992)
   \<and> lit (9 / 40) = Fin (2026619832316723 / 9007199254740992 + 1 / 2 ^ 55)"
proof -
  have known: "adjustEpsilon b (Some ''search_growth'') = fmul b (lit (7 / 10))"
    "adjustEpsilon b (Some ''buyer_interest'') = fmul b (lit (7 / 10))"
    "adjustEpsilon b (Some ''early_noise'') = fmul b (lit (6 / 5))"
    "adjustEpsilon b (Some ''media_amplification'') = fmul b (lit (3 / 2))"
    "adjustEpsilon b None = b"
    by (simp_all add: adjustEpsilon_def)
  have other: "s \<notin> {''search_growth'', ''buyer_interest'', ''early_noise'', ''media_amplification''}
        \<longrightarrow> adjustEpsilon b (Some s) = b"
    by (simp add: adjustEpsilon_def)
  have below: "lit (9 / 40) = Fin (2026619832316723 / 9007199254740992 + 1 / 2 ^ 55)"
    unfolding lit_0225 by simp
  show ?thesis
    using known other below adjustEpsilon_search_015 adjustEpsilon_media_015 by blast
qed

text \<open>Witness for C8: an unknown stage name leaves the literal \<^verbatim>\<open>0.15\<close> unchanged.\<close>

theorem adjustEpsilon_factors_witness:
  "''plateau'' \<notin> {''search_growth'', ''buyer_interest'', ''early_noise'', ''media_amplification''}
   \<and> adjustEpsilon (lit (3 / 20)) (Some ''plateau'') = lit (3 / 20)"
  using adjustEpsilon_factors [of "lit (3 / 20)" "''plateau''"] by simp

section \<open>Properties of the clamp \<^verbatim>\<open>Math.max(0, Math.min(1, x))\<close>\<close>

lemma clamp01_range:
  "Math_max (Fin 0) (Math_min (Fin 1) q) = NaN
   \<or> (fle (Fin 0) (Math_max (Fin 0) (Math_min (Fin 1) q))
       \<and> fle (Math_max (Fin 0) (Math_min (Fin 1) q)) (Fin 1))"
  by (cases q) (auto simp: Math_max_def Math_min_def fle_def feq_def)

lemma clamp01_zero:
  "feq (Math_max (Fin 0) (Math_min (Fin 1) q)) (Fin 0) \<longleftrightarrow> fle q (Fin 0)"
  by (cases q) (auto simp: Math_max_def Math_min_def fle_def feq_def)

section \<open>Properties of \<^verbatim>\<open>computeAMI\<close>\<close>

lemma layersWithData_nonneg:
  "(\<forall>v \<in> set (map snd ls). fge v (Fin 0))
   \<Longrightarrow> layersWithData ls = length (filter (\<lambda>v. \<not> feq v (Fin 0)) (map snd ls))"
proof (induction ls)
  case Nil
  then show ?case by (simp add: layersWithData_def)
next
  case (Cons p ls)
  obtain k v where p: "p = (k, v)" by (cases p)
  from Cons.prems p have v: "fge v (Fin 0)" by simp
  have "fgt v (Fin 0) \<longleftrightarrow> \<not> feq v (Fin 0)"
    using v by (cases v) (auto simp: fge_def fle_def feq_def fgt_def)
  with Cons p show ?case by (simp add: layersWithData_def)
qed

lemma computeAMI_example_stage:
  "stage (computeAMI [(1, lit (4 / 5)), (2, lit (1 / 10)), (3, Fin 0), (4, Fin 0)]) = early_noise"
  by code_simp

text \<open>
  Claim C7, as stated, fails on the code: in the map \<open>{1: -1}\<close> one layer has a non-zero
  score, so the stated confidence is \<open>min(1, (1 / 4) * 0.8 + 0.2) = 0.4\<close>; the code counts the
  scores above 0, finds none, and returns \<open>0.2\<close>.
\<close>

theorem computeAMI_negative_score_confidence:
  "ami_confidence (computeAMI [(1, Fin (- 1))]) = lit (1 / 5)
   \<and> length (filter (\<lambda>v. \<not> feq v (Fin 0)) (map snd [(1::int, Fin (- 1))])) = 1
   \<and> Math_min (Fin 1) (fadd (fmul (fdiv (nat_to_double 1) (Fin 4)) (lit (4 / 5))) (lit (1 / 5)))
       = lit (2 / 5)
   \<and> lit (1 / 5) \<noteq> lit (2 / 5)"
  by code_simp

text \<open>
  Claim C7, amended: for every layer-score map, \<^verbatim>\<open>ami\<close> is the binary64 weighted sum
  \<open>cultural * 0.2 + search * 0.3 + marketplace * 0.25 + media * 0.25\<close> of the scores of layers
  1 to 4 (an absent layer counting as 0), clamped by \<^verbatim>\<open>Math.max(0, Math.min(1, _))\<close>, so it
  lies in [0,1] unless it is NaN; the stage follows the ordered rules; and the confidence is
  \<open>min(1, (k / 4) * 0.8 + 0.2)\<close>, where \<open>k\<close> counts the entries with a score above 0: a
  negative score is not counted, and only for scores that are all at least 0 is \<open>k\<close> the
  number of entries with a non-zero score. The map \<open>{1: 0.8, 2: 0.1, 3: 0, 4: 0}\<close> is
  classified \<open>early_noise\<close>.
\<close>

theorem computeAMI_spec:
  fixes ls :: "(int \<times> double) list"
  defines "c \<equiv> get_or_zero ls 1" and "s \<equiv> get_or_zero ls 2"
    and "m \<equiv> get_or_zero ls 3" and "d \<equiv> get_or_zero ls 4"
  shows "ami (computeAMI ls)
           = Math_max (Fin 0) (Math_min (Fin 1)
               (fadd (fadd (fadd (fmul c (lit (1 / 5))) (fmul s (lit (3 / 10))))
                           (fmul m (lit (1 / 4))))
                     (fmul d (lit (1 / 4)))))
       \<and> (ami (computeAMI ls) = NaN
           \<or> (fle (Fin 0) (ami (computeAMI ls)) \<and> fle (ami (computeAMI ls)) (Fin 1)))
       \<and> (\<forall>k. map_of ls k = None \<longrightarrow> get_or_zero ls k = Fin 0)
       \<and> (\<forall>k v. map_of ls k = Some v \<longrightarrow> get_or_zero ls k = v)
       \<and> stage (computeAMI ls)
           = (if fgt c (lit (3 / 5)) \<and> flt s (lit (3 / 10)) then early_noise
              else if fgt s (lit (1 / 2)) then search_growth
              else if fgt m (lit (1 / 2)) then buyer_interest
              else if fgt d (lit (3 / 5)) then media_amplification
              else early_noise)
       \<and> ami_confidence (computeAMI ls)
           = Math_min (Fin 1)
               (fadd (fmul (fdiv (nat_to_double (length (filter (\<lambda>v. fgt v (Fin 0)) (map snd ls))))
                                 (Fin 4))
                           (lit (4 / 5)))
                     (lit (1 / 5)))
       \<and> ((\<forall>v \<in> set (map snd ls). fge v (Fin 0))
            \<longrightarrow> length (filter (\<lambda>v. fgt v (Fin 0)) (map snd ls))
                  = length (filter (\<lambda>v. \<not> feq v (Fin 0)) (map snd ls)))
       \<and> stage (computeAMI [(1, lit (4 / 5)), (2, lit (1 / 10)), (3, Fin 0), (4, Fin 0)])
           = early_noise"
proof -
  have a: "ami (computeAMI ls)
           = Math_max (Fin 0) (Math_min (Fin 1)
               (fadd (fadd (fadd (fmul c (lit (1 / 5))) (fmul s (lit (3 / 10))))
                           (fmul m (lit (1 / 4))))
                     (fmul d (lit (1 / 4)))))"
    by (simp add: computeAMI_def weighted_ami_def Let_def c_def s_def m_def d_def)
  have r: "ami (computeAMI ls) = NaN
           \<or> (fle (Fin 0) (ami (computeAMI ls)) \<and> fle (ami (computeAMI ls)) (Fin 1))"
    unfolding a by (rule clamp01_range)
  have g: "(\<forall>k. map_of ls k = None \<longrightarrow> get_or_zero ls k = Fin 0)
           \<and> (\<forall>k v. map_of ls k = Some v \<longrightarrow> get_or_zero ls k = v)"
    by (simp add: get_or_zero_def)
  have st: "stage (computeAMI ls)
           = (if fgt c (lit (3 / 5)) \<and> flt s (lit (3 / 10)) then early_noise
              else if fgt s (lit (1 / 2)) then search_growth
              else if fgt m (lit (1 / 2)) then buyer_interest
              else if fgt d (lit (3 / 5)) then media_amplification
              else early_noise)"
    by (simp add: computeAMI_def classify_stage_def Let_def c_def s_def m_def d_def)
  have cf: "ami_confidence (computeAMI ls)
           = Math_min (Fin 1)
               (fadd (fmul (fdiv (nat_to_double (length (filter (\<lambda>v. fgt v (Fin 0)) (map snd ls))))
                                 (Fin 4))
                           (lit (4 / 5)))
                     (lit (1 / 5)))"
    by (simp add: computeAMI_def layersWithData_def Let_def)
  have nz: "(\<forall>v \<in> set (map snd ls). fge v (Fin 0))
            \<longrightarrow> length (filter (\<lambda>v. fgt v (Fin 0)) (map snd ls))
                  = length (filter (\<lambda>v. \<not> feq v (Fin 0)) (map snd ls))"
    using layersWithData_nonneg [of ls] by (simp add: layersWithData_def)
  from a r g st cf nz computeAMI_example_stage show ?thesis by blast
qed

text \<open>
  Witness for C7: in \<open>{1: 0.8, 2: 0.1, 3: 0, 4: 0}\<close> every score is at least 0, layer 6 is
  absent, layer 1 is present, two scores are non-zero, and the confidence is
  \<open>(2 / 4) * 0.8 + 0.2\<close>, printed \<^verbatim>\<open>0.6000000000000001\<close>.
\<close>

theorem computeAMI_spec_witness:
  "list_all (\<lambda>v. fge v (Fin 0))
     (map snd [(1::int, lit (4 / 5)), (2, lit (1 / 10)), (3, Fin 0), (4, Fin 0)])
   \<and> map_of [(1::int, lit (4 / 5)), (2, lit (1 / 10)), (3, Fin 0), (4, Fin 0)] 6 = None
   \<and> map_of [(1::int, lit (4 / 5)), (2, lit (1 / 10)), (3, Fin 0), (4, Fin 0)] 1
       = Some (lit (4 / 5))
   \<and> length (filter (\<lambda>v. \<not> feq v (Fin 0))
        (map snd [(1::int, lit (4 / 5)), (2, lit (1 / 10)), (3, Fin 0), (4, Fin 0)])) = 2
   \<and> get_or_zero [(1::int, lit (4 / 5)), (2, lit (1 / 10)), (3, Fin 0), (4, Fin 0)] 6 = Fin 0
   \<and> ami_confidence (computeAMI [(1, lit (4 / 5)), (2, lit (1 / 10)), (3, Fin 0), (4, Fin 0)])
       = Fin (5404319552844596 / 9007199254740992)"
proof -
  let ?ls = "[(1::int, lit (4 / 5)), (2, lit (1 / 10)), (3, Fin 0), (4, Fin 0)]"
  have h: "\<forall>v \<in> set (map snd ?ls). fge v (Fin 0)" by code_simp
  have k: "length (filter (\<lambda>v. fgt v (Fin 0)) (map snd ?ls)) = 2" by code_simp
  have m6: "map_of ?ls 6 = None" and m1: "map_of ?ls 1 = Some (lit (4 / 5))" by simp_all
  have v: "Math_min (Fin 1) (fadd (fmul (fdiv (nat_to_double 2) (Fin 4)) (lit (4 / 5))) (lit (1 / 5)))
           = Fin (5404319552844596 / 9007199254740992)" by code_simp
  from h have h': "list_all (\<lambda>v. fge v (Fin 0)) (map snd ?ls)" by (simp add: list_all_iff)
  from computeAMI_spec [of ?ls] h k m6 m1 v
  have "length (filter (\<lambda>v. \<not> feq v (Fin 0)) (map snd ?ls)) = 2
        \<and> get_or_zero ?ls 6 = Fin 0
        \<and> ami_confidence (computeAMI ?ls) = Fin (5404319552844596 / 9007199254740992)"
    by simp
  with h' m6 m1 show ?thesis by blast
qed

section \<open>Properties of \<^verbatim>\<open>normalizeFeatures\<close>\<close>

lemma normalize_value_range:
  "normalize_value st v = NaN
   \<or> (fle (Fin 0) (normalize_value st v) \<and> fle (normalize_value st v) (Fin 1))"
proof (cases st)
  case None
  then show ?thesis by (simp add: normalize_value_def fle_def feq_def)
next
  case (Some s)
  show ?thesis
  proof (cases "feq (max_s s) (min_s s)")
    case True
    with Some have "normalize_value st v = Fin 0" by (simp add: normalize_value_def)
    then show ?thesis by (simp add: fle_def feq_def)
  next
    case False
    with Some have "normalize_value st v
        = Math_max (Fin 0) (Math_min (Fin 1) (fdiv (fsub v (min_s s)) (fsub (max_s s) (min_s s))))"
      by (simp add: normalize_value_def)
    then show ?thesis using clamp01_range by simp
  qed
qed

lemma normalize_value_zero:
  "feq (normalize_value st v) (Fin 0)
     \<longleftrightarrow> (case st of
            None \<Rightarrow> True
          | Some s \<Rightarrow> feq (max_s s) (min_s s)
                       \<or> fle (fdiv (fsub v (min_s s)) (fsub (max_s s) (min_s s))) (Fin 0))"
proof (cases st)
  case None
  then show ?thesis by (simp add: normalize_value_def feq_def)
next
  case (Some s)
  show ?thesis
  proof (cases "feq (max_s s) (min_s s)")
    case True
    with Some have "normalize_value st v = Fin 0" by (simp add: normalize_value_def)
    moreover have "feq (Fin 0) (Fin 0)" by (simp add: feq_def)
    ultimately show ?thesis using Some True by simp
  next
    case False
    with Some show ?thesis by (simp add: normalize_value_def clamp01_zero)
  qed
qed

text \<open>
  Claim C3, as stated, fails on the code: with statistics \<open>min = 0\<close>, \<open>max = 1\<close> the value
  \<open>0\<close> is normalized to \<open>0\<close> although \<open>max === min\<close> does not hold.
\<close>

theorem normalizeFeatures_zero_without_degenerate_stats:
  "normalizeFeatures [(''x'', Fin 0)]
       [(''x'', \<lparr> min_s = Fin 0, max_s = Fin 1, mean = lit (1 / 2), stdDev = lit (1 / 2) \<rparr>)]
     = [(''x'', Fin 0)]
   \<and> \<not> feq (Fin 1) (Fin 0)"
  by code_simp

text \<open>
  Claim C3, amended: \<^verbatim>\<open>normalizeFeatures\<close> returns one entry per feature, in order, except
  that a feature named \<^verbatim>\<open>__proto__\<close> gets none. The value of an entry is 0 when the feature
  has no statistics or its statistics satisfy \<open>max === min\<close>, and otherwise
  \<^verbatim>\<open>Math.max(0, Math.min(1, q))\<close> for the binary64 quotient \<open>q = (v - min) / (max - min)\<close>. So
  every value returned lies in [0,1] unless it is NaN, and a value returned equals 0 exactly
  when the statistics are absent, or satisfy \<open>max === min\<close>, or the quotient \<open>q\<close> is at
  most 0.
\<close>

theorem normalizeFeatures_range:
  fixes features :: "(string \<times> double) list" and stats :: "(string \<times> FeatureStats) list"
  defines "kept \<equiv> filter (\<lambda>(key, v). key \<noteq> ''__proto__'') features"
    and "out \<equiv> normalizeFeatures features stats"
  shows "map fst out = map fst kept
   \<and> (\<forall>r \<in> set (map snd out). r = NaN \<or> (fle (Fin 0) r \<and> fle r (Fin 1)))
   \<and> (\<forall>i < length kept.
         snd (out ! i)
           = (case map_of stats (fst (kept ! i)) of
                None \<Rightarrow> Fin 0
              | Some s \<Rightarrow>
                  if feq (max_s s) (min_s s) then Fin 0
                  else Math_max (Fin 0) (Math_min (Fin 1)
                         (fdiv (fsub (snd (kept ! i)) (min_s s)) (fsub (max_s s) (min_s s))))))
   \<and> (\<forall>i < length kept.
         feq (snd (out ! i)) (Fin 0)
           \<longleftrightarrow> (case map_of stats (fst (kept ! i)) of
                  None \<Rightarrow> True
                | Some s \<Rightarrow>
                    feq (max_s s) (min_s s)
                    \<or> fle (fdiv (fsub (snd (kept ! i)) (min_s s)) (fsub (max_s s) (min_s s)))
                          (Fin 0)))"
proof -
  have o: "out = map (\<lambda>(key, v). (key, normalize_value (map_of stats key) v)) kept"
    by (simp add: out_def kept_def normalizeFeatures_def)
  have keys: "map fst out = map fst kept"
    unfolding o by (induction kept) auto
  have range: "\<forall>r \<in> set (map snd out). r = NaN \<or> (fle (Fin 0) r \<and> fle r (Fin 1))"
  proof
    fix r
    assume "r \<in> set (map snd out)"
    then obtain k v where "r = normalize_value (map_of stats k) v"
      unfolding o by auto
    then show "r = NaN \<or> (fle (Fin 0) r \<and> fle r (Fin 1))"
      using normalize_value_range by simp
  qed
  have at: "snd (out ! i) = normalize_value (map_of stats (fst (kept ! i))) (snd (kept ! i))"
    if "i < length kept" for i
    using that unfolding o by (simp add: case_prod_beta)
  have exact: "\<forall>i < length kept.
         snd (out ! i)
           = (case map_of stats (fst (kept ! i)) of
                None \<Rightarrow> Fin 0
              | Some s \<Rightarrow>
                  if feq (max_s s) (min_s s) then Fin 0
                  else Math_max (Fin 0) (Math_min (Fin 1)
                         (fdiv (fsub (snd (kept ! i)) (min_s s)) (fsub (max_s s) (min_s s)))))"
    by (simp add: at normalize_value_def split: option.splits)
  have zero: "\<forall>i < length kept.
         feq (snd (out ! i)) (Fin 0)
           \<longleftrightarrow> (case map_of stats (fst (kept ! i)) of
                  None \<Rightarrow> True
                | Some s \<Rightarrow>
                    feq (max_s s) (min_s s)
                    \<or> fle (fdiv (fsub (snd (kept ! i)) (min_s s)) (fsub (max_s s) (min_s s)))
                          (Fin 0))"
    by (simp add: at normalize_value_zero)
  from keys range exact zero show ?thesis by blast
qed

text \<open>
  Witness for C3: of the features \<open>a = 7\<close>, \<open>b = 0.5\<close> and \<^verbatim>\<open>__proto__\<close> \<open>= 1\<close> the first two are
  kept; \<open>a\<close>, whose statistics have \<open>max = min = 2\<close>, is normalized to 0, and \<open>b\<close>, with
  \<open>min = 0\<close> and \<open>max = 1\<close>, keeps its value 0.5, which is not 0.
\<close>

theorem normalizeFeatures_range_witness:
  "(1::nat) < length (filter (\<lambda>(key, v). key \<noteq> ''__proto__'')
                  [(''a'', Fin 7), (''b'', lit (1 / 2)), (''__proto__'', Fin 1)])
   \<and> map fst (normalizeFeatures [(''a'', Fin 7), (''b'', lit (1 / 2)), (''__proto__'', Fin 1)]
        [(''a'', \<lparr> min_s = Fin 2, max_s = Fin 2, mean = Fin 2, stdDev = Fin 0 \<rparr>),
         (''b'', \<lparr> min_s = Fin 0, max_s = Fin 1, mean = lit (1 / 2), stdDev = Fin 0 \<rparr>)])
       = [''a'', ''b'']
   \<and> snd (normalizeFeatures [(''a'', Fin 7), (''b'', lit (1 / 2)), (''__proto__'', Fin 1)]
        [(''a'', \<lparr> min_s = Fin 2, max_s = Fin 2, mean = Fin 2, stdDev = Fin 0 \<rparr>),
         (''b'', \<lparr> min_s = Fin 0, max_s = Fin 1, mean = lit (1 / 2), stdDev = Fin 0 \<rparr>)] ! 0)
       = Fin 0
   \<and> snd (normalizeFeatures [(''a'', Fin 7), (''b'', lit (1 / 2)), (''__proto__'', Fin 1)]
        [(''a'', \<lparr> min_s = Fin 2, max_s = Fin 2, mean = Fin 2, stdDev = Fin 0 \<rparr>),
         (''b'', \<lparr> min_s = Fin 0, max_s = Fin 1, mean = lit (1 / 2), stdDev = Fin 0 \<rparr>)] ! 1)
       = lit (1 / 2)
   \<and> \<not> feq (snd (normalizeFeatures [(''a'', Fin 7), (''b'', lit (1 / 2)), (''__proto__'', Fin 1)]
        [(''a'', \<lparr> min_s = Fin 2, max_s = Fin 2, mean = Fin 2, stdDev = Fin 0 \<rparr>),
         (''b'', \<lparr> min_s = Fin 0, max_s = Fin 1, mean = lit (1 / 2), stdDev = Fin 0 \<rparr>)] ! 1))
        (Fin 0)
   \<and> list_all (\<lambda>r. r = NaN \<or> (fle (Fin 0) r \<and> fle r (Fin 1)))
        (map snd (normalizeFeatures [(''a'', Fin 7), (''b'', lit (1 / 2)), (''__proto__'', Fin 1)]
        [(''a'', \<lparr> min_s = Fin 2, max_s = Fin 2, mean = Fin 2, stdDev = Fin 0 \<rparr>),
         (''b'', \<lparr> min_s = Fin 0, max_s = Fin 1, mean = lit (1 / 2), stdDev = Fin 0 \<rparr>)]))"
proof -
  let ?f = "[(''a'', Fin 7), (''b'', lit (1 / 2)), (''__proto__'', Fin 1)]"
  let ?s = "[(''a'', \<lparr> min_s = Fin 2, max_s = Fin 2, mean = Fin 2, stdDev = Fin 0 \<rparr>),
             (''b'', \<lparr> min_s = Fin 0, max_s = Fin 1, mean = lit (1 / 2), stdDev = Fin 0 \<rparr>)]"
  let ?k = "filter (\<lambda>(key, v). key \<noteq> ''__proto__'') ?f"
  have k: "?k = [(''a'', Fin 7), (''b'', lit (1 / 2))]" by simp
  have h1: "(1::nat) < length ?k" and h0: "(0::nat) < length ?k" unfolding k by simp_all
  have q: "Math_max (Fin 0) (Math_min (Fin 1)
             (fdiv (fsub (lit (1 / 2)) (Fin 0)) (fsub (Fin 1) (Fin 0)))) = lit (1 / 2)"
    by code_simp
  have nq: "\<not> fle (fdiv (fsub (lit (1 / 2)) (Fin 0)) (fsub (Fin 1) (Fin 0))) (Fin 0)"
    by code_simp
  have d: "feq (Fin 2) (Fin 2)" "\<not> feq (Fin 1) (Fin 0)" by (simp_all add: feq_def)
  note t = normalizeFeatures_range [of ?f ?s]
  have fs: "fst (?k ! 0) = ''a''" "snd (?k ! 0) = Fin 7" "fst (?k ! 1) = ''b''"
    "snd (?k ! 1) = lit (1 / 2)" by simp_all
  from t [THEN conjunct1] have keys: "map fst (normalizeFeatures ?f ?s) = [''a'', ''b'']"
    unfolding k by simp
  from t [THEN conjunct2, THEN conjunct2, THEN conjunct1, rule_format, OF h0]
  have z: "snd (normalizeFeatures ?f ?s ! 0) = Fin 0"
    unfolding fs using d by simp
  from t [THEN conjunct2, THEN conjunct2, THEN conjunct1, rule_format, OF h1]
  have v: "snd (normalizeFeatures ?f ?s ! 1) = lit (1 / 2)"
    unfolding fs using d q by simp
  from t [THEN conjunct2, THEN conjunct2, THEN conjunct2, rule_format, OF h1]
  have nz: "\<not> feq (snd (normalizeFeatures ?f ?s ! 1)) (Fin 0)"
    unfolding fs using d nq by simp
  from t [THEN conjunct2, THEN conjunct1]
  have r: "list_all (\<lambda>r. r = NaN \<or> (fle (Fin 0) r \<and> fle r (Fin 1)))
                 (map snd (normalizeFeatures ?f ?s))"
    by (simp only: list_all_iff)
  from h1 keys z v nz r show ?thesis by blast
qed

section \<open>Properties of \<^verbatim>\<open>splitData\<close> and \<^verbatim>\<open>trainModel\<close>\<close>











lemma trainModel_counts:
  "trainSampleCount (trainModel dsId records)
     = (if length records < 3 then 0 else length (fst (splitData records (lit (4 / 5)))))
   \<and> testSampleCount (trainModel dsId records)
     = (if length records < 3 then 0 else length (snd (splitData records (lit (4 / 5)))))"
  by (simp add: trainModel_def insufficient_data_def Let_def split: prod.splits)

lemma trainModel_zeroed:
  assumes "length records < 3 \<or> fst (splitData records (lit (4 / 5))) = []
           \<or> snd (splitData records (lit (4 / 5))) = []"
  shows "coefficients (trainModel dsId records) = []
       \<and> featureNames (trainModel dsId records) = []
       \<and> intercept (trainModel dsId records) = Fin 0
       \<and> rSquared (trainModel dsId records) = Fin 0
       \<and> mae (trainModel dsId records) = Fin 0
       \<and> tierAccuracy (trainModel dsId records) = Fin 0
       \<and> directionalAccuracy (trainModel dsId records) = Fin 0"
proof (cases "length records < 3")
  case True
  then show ?thesis by (simp add: trainModel_def insufficient_data_def)
next
  case False
  obtain train test where s: "splitData records (lit (4 / 5)) = (train, test)"
    by (cases "splitData records (lit (4 / 5))")
  with assms False have "length train = 0 \<or> length test = 0" by simp
  with False s show ?thesis by (simp add: trainModel_def insufficient_data_def)
qed

text \<open>
  Claim C2: for a list of fewer than 3 records, and likewise when the train or the test
  slice of the split is empty, \<^verbatim>\<open>trainModel\<close> returns (it does not throw) the result with
  empty coefficients and feature names, intercept 0 and the four metrics 0. With fewer than
  3 records the two sample counts are 0 as well. The caller can tell this result from a
  trained one by the sample counts: one of them is 0 exactly in these cases.
\<close>

theorem trainModel_insufficient_data:
  fixes records :: "DatasetRecord list" and dsId :: string
  defines "train \<equiv> fst (splitData records (lit (4 / 5)))"
    and "test \<equiv> snd (splitData records (lit (4 / 5)))"
    and "r \<equiv> trainModel dsId records"
  shows "(length records < 3 \<or> train = [] \<or> test = []
            \<longrightarrow> coefficients r = [] \<and> featureNames r = [] \<and> intercept r = Fin 0
                \<and> rSquared r = Fin 0 \<and> mae r = Fin 0 \<and> tierAccuracy r = Fin 0
                \<and> directionalAccuracy r = Fin 0)
       \<and> (length records < 3 \<longrightarrow> r = insufficient_data)
       \<and> (length records < 3 \<or> train = [] \<or> test = []
            \<longleftrightarrow> trainSampleCount r = 0 \<or> testSampleCount r = 0)"
proof -
  have a: "length records < 3 \<or> train = [] \<or> test = []
            \<longrightarrow> coefficients r = [] \<and> featureNames r = [] \<and> intercept r = Fin 0
                \<and> rSquared r = Fin 0 \<and> mae r = Fin 0 \<and> tierAccuracy r = Fin 0
                \<and> directionalAccuracy r = Fin 0"
    unfolding train_def test_def r_def using trainModel_zeroed by blast
  have b: "length records < 3 \<longrightarrow> r = insufficient_data"
    by (simp add: r_def trainModel_def)
  have c: "length records < 3 \<or> train = [] \<or> test = []
            \<longleftrightarrow> trainSampleCount r = 0 \<or> testSampleCount r = 0"
    unfolding train_def test_def r_def using trainModel_counts [of dsId records] by auto
  from a b c show ?thesis by blast
qed

text \<open>
  Witness for C2: two records give the result with empty coefficients, all values 0 and
  both sample counts 0.
\<close>

theorem trainModel_insufficient_data_witness:
  "length [\<lparr> normalizedFeatures = [(''x'', lit (1 / 2))], targetValue = lit (2 / 5),
              createdAt_rec = Some 1767225600000 \<rparr>,
           \<lparr> normalizedFeatures = [(''x'', lit (1 / 4))], targetValue = lit (3 / 5),
              createdAt_rec = None \<rparr>] < 3
   \<and> trainModel ''d1''
        [\<lparr> normalizedFeatures = [(''x'', lit (1 / 2))], targetValue = lit (2 / 5),
            createdAt_rec = Some 1767225600000 \<rparr>,
         \<lparr> normalizedFeatures = [(''x'', lit (1 / 4))], targetValue = lit (3 / 5),
            createdAt_rec = None \<rparr>]
       = \<lparr> coefficients = [], intercept = Fin 0, featureNames = [], rSquared = Fin 0,
           mae = Fin 0, tierAccuracy = Fin 0, directionalAccuracy = Fin 0,
           trainSampleCount = 0, testSampleCount = 0 \<rparr>"
proof -
  let ?rs = "[\<lparr> normalizedFeatures = [(''x'', lit (1 / 2))], targetValue = lit (2 / 5),
              createdAt_rec = Some 1767225600000 \<rparr>,
           \<lparr> normalizedFeatures = [(''x'', lit (1 / 4))], targetValue = lit (3 / 5),
              createdAt_rec = None \<rparr>]"
  have h: "length ?rs < 3" by simp
  from trainModel_insufficient_data [of ?rs "''d1''", THEN conjunct2, THEN conjunct1] h
  have "trainModel ''d1'' ?rs = insufficient_data" by blast
  with h show ?thesis by (simp add: insufficient_data_def)
qed



section \<open>Properties of \<^verbatim>\<open>optimizeFeatures\<close>\<close>

text \<open>
  Claim C6 at the failing input: the features \<open>{b: 1, a: 0}\<close>, the feature names
  \<open>[a, b]\<close> with the coefficients \<open>[1, 0]\<close>, the intercept 0 and the default step. The
  current prediction is 0. Raising \<open>a\<close> by the step changes the prediction by 0.05, and no
  change of \<open>b\<close> changes it. \<^verbatim>\<open>simulateDelta\<close> perturbs the feature at the position of the
  index among the keys of the feature object, and predicts from the values in the order of
  these keys: for \<open>a\<close> it perturbs \<open>b\<close> and reports the gain 1, and for \<open>b\<close> it perturbs \<open>a\<close>
  and suggests lowering \<open>b\<close>, also with the gain 1, so the total projected lift is 2. With the
  keys in the order of the names the only suggestion is \<open>a\<close> with the gain 0.05; with a
  named feature beyond the keys of the object the call throws.
\<close>

theorem optimizeFeatures_follows_key_order:
  "optimizeFeatures [(''b'', Fin 1), (''a'', Fin 0)] [Fin 1, Fin 0] (Fin 0) [''a'', ''b'']
       default_stepSize
     = Inr \<lparr> suggestions =
               [\<lparr> featureName = ''a'', currentValue = Fin 0, suggestedValue = lit (1 / 20),
                   delta = lit (1 / 20), predictedGain = Fin 1,
                   suggestion_confidence = Fin 1 \<rparr>,
                \<lparr> featureName = ''b'', currentValue = Fin 1, suggestedValue = lit (19 / 20),
                   delta = fsub (lit (19 / 20)) (Fin 1), predictedGain = Fin 1,
                   suggestion_confidence = Fin 0 \<rparr>],
             currentPrediction = Fin 0, optimizedPrediction = Fin 2,
             totalProjectedLift = Fin 2, liftPercent = Fin 0 \<rparr>
   \<and> fsub (predict [Fin 1, Fin 0] (Fin 0)
             [Math_max (Fin 0) (Math_min (Fin 1) (fadd (Fin 0) default_stepSize)), Fin 1])
           (predict [Fin 1, Fin 0] (Fin 0) [Fin 0, Fin 1])
       = lit (1 / 20)
   \<and> fsub (predict [Fin 1, Fin 0] (Fin 0)
             [Fin 0, Math_max (Fin 0) (Math_min (Fin 1) (fadd (Fin 1) default_stepSize))])
           (predict [Fin 1, Fin 0] (Fin 0) [Fin 0, Fin 1])
       = Fin 0
   \<and> fsub (predict [Fin 1, Fin 0] (Fin 0)
             [Fin 0, Math_max (Fin 0) (Math_min (Fin 1) (fsub (Fin 1) default_stepSize))])
           (predict [Fin 1, Fin 0] (Fin 0) [Fin 0, Fin 1])
       = Fin 0
   \<and> optimizeFeatures [(''a'', Fin 0), (''b'', Fin 1)] [Fin 1, Fin 0] (Fin 0) [''a'', ''b'']
       default_stepSize
     = Inr \<lparr> suggestions =
               [\<lparr> featureName = ''a'', currentValue = Fin 0, suggestedValue = lit (1 / 20),
                   delta = lit (1 / 20), predictedGain = lit (1 / 20),
                   suggestion_confidence = Fin 1 \<rparr>],
             currentPrediction = Fin 0, optimizedPrediction = lit (1 / 20),
             totalProjectedLift = lit (1 / 20), liftPercent = Fin 0 \<rparr>
   \<and> optimizeFeatures [(''a'', Fin 0)] [Fin 1, Fin 0] (Fin 0) [''a'', ''b''] default_stepSize
     = Inl (InvalidFeatureIndex 1)"
  by code_simp

text \<open>
  Witness for C6: at this input the call returns a result, with the two suggestions and
  the total lift 2.
\<close>

theorem optimizeFeatures_follows_key_order_witness:
  "(case optimizeFeatures [(''b'', Fin 1), (''a'', Fin 0)] [Fin 1, Fin 0] (Fin 0) [''a'', ''b'']
           default_stepSize of
      Inl _ \<Rightarrow> False
    | Inr r \<Rightarrow> map featureName (suggestions r) = [''a'', ''b'']
               \<and> map predictedGain (suggestions r) = [Fin 1, Fin 1]
               \<and> totalProjectedLift r = Fin 2)"
  by (simp add: optimizeFeatures_follows_key_order [THEN conjunct1])

section \<open>Properties of \<^verbatim>\<open>createPredictionSnapshot\<close>, \<^verbatim>\<open>confirmUpload\<close> and \<^verbatim>\<open>validatePrediction\<close>\<close>

lemma find_SomeD: "find P xs = Some x \<Longrightarrow> x \<in> set xs \<and> P x"
  by (induction xs) (auto split: if_splits)



text \<open>
  Values through a \<^verbatim>\<open>real\<close> column: 0.8, 0.9 and 1 come back as they are;
  \<^verbatim>\<open>0.1 + 0.2 = 0.30000000000000004\<close> comes back as 0.3, and
  \<^verbatim>\<open>0.8 - 0.9 = -0.09999999999999998\<close> as -0.1.
\<close>

lemma real_column_08: "real_column (lit (4 / 5)) = Some (lit (4 / 5))"
  by code_simp

lemma real_column_09: "real_column (lit (9 / 10)) = Some (lit (9 / 10))"
  by code_simp

lemma real_column_1: "real_column (Fin 1) = Some (Fin 1)"
  by code_simp

lemma real_column_sum: "real_column (fadd (lit (1 / 10)) (lit (1 / 5))) = Some (lit (3 / 10))"
  by code_simp

lemma sum_not_03: "fadd (lit (1 / 10)) (lit (1 / 5)) \<noteq> lit (3 / 10)"
  by code_simp

lemma real_column_error:
  "real_column (fsub (lit (4 / 5)) (lit (9 / 10))) = Some (lit (- (1 / 10)))"
  by code_simp

lemma real_column_abs_error:
  "real_column (Math_abs (fsub (lit (4 / 5)) (lit (9 / 10)))) = Some (lit (1 / 10))"
  by code_simp

lemma error_08_09:
  "fsub (lit (4 / 5)) (lit (9 / 10)) = Fin (- (3602879701896396 / 36028797018963968))"
  by code_simp




text \<open>
  Claim C5, as stated, fails on the code: a snapshot stored with an empty tier and predicted
  value 0.8, validated against 0.9, is logged with \<^verbatim>\<open>tierCorrect = true\<close> although the stored
  tier is not \<^verbatim>\<open>classifyTier(0.9) = "top"\<close>. Its \<^verbatim>\<open>error\<close> column, a \<^verbatim>\<open>real\<close>, holds -0.1, while
  the difference \<^verbatim>\<open>0.8 - 0.9\<close> is \<^verbatim>\<open>-0.09999999999999998\<close>, the value returned beside the log.
\<close>

theorem validatePrediction_tier_fallback:
  "(case createPredictionSnapshot \<lparr> snapshots = [], logs = [] \<rparr>
           \<lparr> appNow = 1767225600000, newId = ''s1'', dbNow = 1767225600001 \<rparr>
           ''d1'' ''m1'' [Fin 1] [lit (4 / 5)] (lit (4 / 5)) [] (Fin 1) None None of
      Inl _ \<Rightarrow> False
    | Inr (db, snap) \<Rightarrow>
        (case validatePrediction db
                \<lparr> appNow = 1767225700000, newId = ''l1'', dbNow = 1767225700001 \<rparr> ''s1''
                (lit (9 / 10)) of
           Inl _ \<Rightarrow> False
         | Inr (db', v) \<Rightarrow>
             tierCorrect (v_log v) = Some True
             \<and> predictedTier snap = Some []
             \<and> classifyTier (lit (9 / 10)) = ''top''
             \<and> error (v_log v) = Some (lit (- (1 / 10)))
             \<and> v_error v = fsub (lit (4 / 5)) (lit (9 / 10))
             \<and> fsub (lit (4 / 5)) (lit (9 / 10)) \<noteq> lit (- (1 / 10))))"
  by code_simp

text \<open>
  Claim C5, amended: \<^verbatim>\<open>validatePrediction(snapshotId, actualValue)\<close> fails with "Snapshot not
  found" when no snapshot has that id; it fails when the predicted value, the actual value,
  their difference or its absolute value is outside the range of a \<^verbatim>\<open>real\<close> column; and
  otherwise it appends exactly one log. The columns \<open>predictedValue\<close>, \<open>actualValue\<close>, \<open>error\<close>
  and \<open>absoluteError\<close> of the log hold the predicted value, the actual value, the binary64
  difference predicted - actual and its absolute value as the \<^verbatim>\<open>real\<close> columns give them
  back; the binary64 difference itself is the \<open>error\<close> returned beside the log.
  \<open>directionallyCorrect\<close> holds iff both values are at least 0.5 or both are below 0.5, and
  \<open>tierCorrect\<close> holds iff the stored tier, or \<^verbatim>\<open>classifyTier(predicted)\<close> when the stored tier is
  null or empty, equals \<^verbatim>\<open>classifyTier(actualValue)\<close>.
\<close>

theorem validatePrediction_spec:
  "(\<not> (\<exists>r \<in> set (snapshots db). id_col r = sid)
      \<longrightarrow> validatePrediction db e sid a = Inl SnapshotNotFound)
   \<and> (\<forall>snap. find (\<lambda>r. id_col r = sid) (snapshots db) = Some snap
        \<and> (real_column (predictedValue snap) = None \<or> real_column a = None
             \<or> real_column (fsub (predictedValue snap) a) = None
             \<or> real_column (Math_abs (fsub (predictedValue snap) a)) = None)
        \<longrightarrow> validatePrediction db e sid a = Inl NumericValueOutOfRange)
   \<and> (\<forall>snap p' a' e' ab'. find (\<lambda>r. id_col r = sid) (snapshots db) = Some snap
        \<and> real_column (predictedValue snap) = Some p' \<and> real_column a = Some a'
        \<and> real_column (fsub (predictedValue snap) a) = Some e'
        \<and> real_column (Math_abs (fsub (predictedValue snap) a)) = Some ab'
        \<longrightarrow> (\<exists>log v. validatePrediction db e sid a = Inr (db\<lparr> logs := logs db @ [log] \<rparr>, v)
               \<and> v_log v = log
               \<and> log_snapshotId log = Some sid
               \<and> log_predictedValue log = p' \<and> actualValue log = Some a'
               \<and> error log = Some e' \<and> absoluteError log = Some ab'
               \<and> v_predicted v = predictedValue snap \<and> v_actualValue v = a
               \<and> v_error v = fsub (predictedValue snap) a
               \<and> directionallyCorrect log = Some
                    ((fge (predictedValue snap) (lit (1 / 2)) \<and> fge a (lit (1 / 2)))
                     \<or> (flt (predictedValue snap) (lit (1 / 2)) \<and> flt a (lit (1 / 2))))
               \<and> tierCorrect log = Some
                    ((case predictedTier snap of
                        None \<Rightarrow> classifyTier (predictedValue snap)
                      | Some t \<Rightarrow> if t = [] then classifyTier (predictedValue snap) else t)
                     = classifyTier a)))"
proof -
  have nf: "\<not> (\<exists>r \<in> set (snapshots db). id_col r = sid)
      \<longrightarrow> validatePrediction db e sid a = Inl SnapshotNotFound"
  proof
    assume "\<not> (\<exists>r \<in> set (snapshots db). id_col r = sid)"
    then have "find (\<lambda>r. id_col r = sid) (snapshots db) = None"
      by (simp add: find_None_iff)
    then show "validatePrediction db e sid a = Inl SnapshotNotFound"
      by (simp add: validatePrediction_def)
  qed
  have oor: "\<forall>snap. find (\<lambda>r. id_col r = sid) (snapshots db) = Some snap
        \<and> (real_column (predictedValue snap) = None \<or> real_column a = None
             \<or> real_column (fsub (predictedValue snap) a) = None
             \<or> real_column (Math_abs (fsub (predictedValue snap) a)) = None)
        \<longrightarrow> validatePrediction db e sid a = Inl NumericValueOutOfRange"
    by (auto simp: validatePrediction_def Let_def split: option.splits)
  have ok: "\<forall>snap p' a' e' ab'. find (\<lambda>r. id_col r = sid) (snapshots db) = Some snap
        \<and> real_column (predictedValue snap) = Some p' \<and> real_column a = Some a'
        \<and> real_column (fsub (predictedValue snap) a) = Some e'
        \<and> real_column (Math_abs (fsub (predictedValue snap) a)) = Some ab'
        \<longrightarrow> (\<exists>log v. validatePrediction db e sid a = Inr (db\<lparr> logs := logs db @ [log] \<rparr>, v)
               \<and> v_log v = log
               \<and> log_snapshotId log = Some sid
               \<and> log_predictedValue log = p' \<and> actualValue log = Some a'
               \<and> error log = Some e' \<and> absoluteError log = Some ab'
               \<and> v_predicted v = predictedValue snap \<and> v_actualValue v = a
               \<and> v_error v = fsub (predictedValue snap) a
               \<and> directionallyCorrect log = Some
                    ((fge (predictedValue snap) (lit (1 / 2)) \<and> fge a (lit (1 / 2)))
                     \<or> (flt (predictedValue snap) (lit (1 / 2)) \<and> flt a (lit (1 / 2))))
               \<and> tierCorrect log = Some
                    ((case predictedTier snap of
                        None \<Rightarrow> classifyTier (predictedValue snap)
                      | Some t \<Rightarrow> if t = [] then classifyTier (predictedValue snap) else t)
                     = classifyTier a))"
    by (simp add: validatePrediction_def Let_def tier_or_classify_def)
  from nf oor ok show ?thesis by blast
qed

text \<open>
  Witness for C5: in a store holding the snapshot \<open>s1\<close> (predicted 0.8, tier "top"), validating
  the unknown id \<open>zz\<close> fails, and validating \<open>s1\<close> against 0.9 succeeds: the log holds the error
  -0.1, and the error returned is \<open>0.8 - 0.9\<close>, printed \<^verbatim>\<open>-0.09999999999999998\<close>.
\<close>

theorem validatePrediction_spec_witness:
  "\<exists>db snap.
     createPredictionSnapshot \<lparr> snapshots = [], logs = [] \<rparr>
        \<lparr> appNow = 1767225600000, newId = ''s1'', dbNow = 1767225600001 \<rparr>
        ''d1'' ''m1'' [Fin 1] [lit (4 / 5)] (lit (4 / 5)) ''top'' (Fin 1) None None
       = Inr (db, snap)
     \<and> list_all (\<lambda>r. id_col r \<noteq> ''zz'') (snapshots db)
     \<and> validatePrediction db
           \<lparr> appNow = 1767225700000, newId = ''l1'', dbNow = 1767225700001 \<rparr> ''zz''
           (lit (9 / 10)) = Inl SnapshotNotFound
     \<and> find (\<lambda>r. id_col r = ''s1'') (snapshots db) = Some snap
     \<and> (\<exists>log v. validatePrediction db
                    \<lparr> appNow = 1767225700000, newId = ''l1'', dbNow = 1767225700001 \<rparr> ''s1''
                    (lit (9 / 10))
                  = Inr (db\<lparr> logs := logs db @ [log] \<rparr>, v)
          \<and> error log = Some (lit (- (1 / 10)))
          \<and> absoluteError log = Some (lit (1 / 10))
          \<and> v_error v = Fin (- (3602879701896396 / 36028797018963968))
          \<and> directionallyCorrect log = Some True
          \<and> tierCorrect log = Some True)"
proof -
  let ?e = "\<lparr> appNow = 1767225600000, newId = ''s1'', dbNow = 1767225600001 \<rparr>"
  let ?c = "createPredictionSnapshot \<lparr> snapshots = [], logs = [] \<rparr> ?e
        ''d1'' ''m1'' [Fin 1] [lit (4 / 5)] (lit (4 / 5)) ''top'' (Fin 1) None None"
  let ?a = "lit (9 / 10)"
  let ?e1 = "\<lparr> appNow = 1767225700000, newId = ''l1'', dbNow = 1767225700001 \<rparr>"
  have "(case ?c of Inl _ \<Rightarrow> False
         | Inr (db, snap) \<Rightarrow> snapshots db = [snap] \<and> id_col snap = ''s1''
             \<and> predictedValue snap = lit (4 / 5) \<and> predictedTier snap = Some ''top'')"
    by (simp add: createPredictionSnapshot_def Let_def real_column_08 real_column_1)
  then obtain db snap where c: "?c = Inr (db, snap)"
    and s: "snapshots db = [snap]" and i: "id_col snap = ''s1''"
    and pv: "predictedValue snap = lit (4 / 5)"
    and pt: "predictedTier snap = Some ''top''"
    by (cases ?c) auto
  have h1: "\<not> (\<exists>r \<in> set (snapshots db). id_col r = ''zz'')" by (simp add: s i)
  have h2: "find (\<lambda>r. id_col r = ''s1'') (snapshots db) = Some snap" by (simp add: s i)
  have d: "((fge (lit (4 / 5)) (lit (1 / 2)) \<and> fge ?a (lit (1 / 2)))
            \<or> (flt (lit (4 / 5)) (lit (1 / 2)) \<and> flt ?a (lit (1 / 2)))) = True"
    by code_simp
  have t: "(''top'' = classifyTier ?a) = True" by code_simp
  from validatePrediction_spec [THEN conjunct1, of db "''zz''" ?e1 ?a] h1
  have nf: "validatePrediction db ?e1 ''zz'' ?a = Inl SnapshotNotFound" by blast
  have hyp: "find (\<lambda>r. id_col r = ''s1'') (snapshots db) = Some snap
        \<and> real_column (predictedValue snap) = Some (lit (4 / 5))
        \<and> real_column ?a = Some ?a
        \<and> real_column (fsub (predictedValue snap) ?a) = Some (lit (- (1 / 10)))
        \<and> real_column (Math_abs (fsub (predictedValue snap) ?a)) = Some (lit (1 / 10))"
    by (simp add: h2 pv real_column_08 real_column_09 real_column_error real_column_abs_error)
  from validatePrediction_spec [THEN conjunct2, THEN conjunct2, rule_format, OF hyp, of ?e1]
  obtain log v where r: "validatePrediction db ?e1 ''s1'' ?a
        = Inr (db\<lparr> logs := logs db @ [log] \<rparr>, v)"
    and "error log = Some (lit (- (1 / 10)))"
    and "absoluteError log = Some (lit (1 / 10))"
    and "v_error v = fsub (predictedValue snap) ?a"
    and "directionallyCorrect log = Some
                ((fge (predictedValue snap) (lit (1 / 2)) \<and> fge ?a (lit (1 / 2)))
                 \<or> (flt (predictedValue snap) (lit (1 / 2)) \<and> flt ?a (lit (1 / 2))))"
    and "tierCorrect log = Some
                ((case predictedTier snap of
                    None \<Rightarrow> classifyTier (predictedValue snap)
                  | Some t \<Rightarrow> if t = [] then classifyTier (predictedValue snap) else t)
                 = classifyTier ?a)"
    by blast
  then have "validatePrediction db ?e1 ''s1'' ?a
        = Inr (db\<lparr> logs := logs db @ [log] \<rparr>, v)
      \<and> error log = Some (lit (- (1 / 10)))
      \<and> absoluteError log = Some (lit (1 / 10))
      \<and> v_error v = Fin (- (3602879701896396 / 36028797018963968))
      \<and> directionallyCorrect log = Some True
      \<and> tierCorrect log = Some True"
    by (simp add: pv pt error_08_09 d t)
  then have ex: "\<exists>log v. validatePrediction db ?e1 ''s1'' ?a
        = Inr (db\<lparr> logs := logs db @ [log] \<rparr>, v)
      \<and> error log = Some (lit (- (1 / 10)))
      \<and> absoluteError log = Some (lit (1 / 10))
      \<and> v_error v = Fin (- (3602879701896396 / 36028797018963968))
      \<and> directionallyCorrect log = Some True
      \<and> tierCorrect log = Some True"
    by blast
  from h1 have h1': "list_all (\<lambda>r. id_col r \<noteq> ''zz'') (snapshots db)"
    by (simp add: list_all_iff)
  show ?thesis
    by (rule exI [of _ db], rule exI [of _ snap]) (intro conjI c h1' nf h2 ex)
qed

section \<open>Properties of \<^verbatim>\<open>detectDrift\<close>\<close>

lemma map_filter_filter:
  "List.map_filter f (filter (\<lambda>p. f p \<noteq> None) xs) = List.map_filter f xs"
  by (induction xs) (auto simp: List.map_filter_simps split: option.splits)

lemma ratio_9_10: "fgt (fdiv (nat_to_double 9) (nat_to_double 10)) (lit (4 / 5))"
  by code_simp

lemma detectDrift_unfold:
  fixes predictions :: "PredictionLog list" and windowSize :: int
  defines "window \<equiv> drop (length predictions - nat windowSize) predictions"
  defines "valid \<equiv> filter (\<lambda>p. actualValue p \<noteq> None) window"
    and "actuals \<equiv> List.map_filter actualValue window"
  defines "ratio \<equiv> fdiv (nat_to_double (length (filter is_overestimate window)))
                         (nat_to_double (length valid))"
    and "hist \<equiv> take (length actuals - 5) actuals"
    and "recent \<equiv> drop (length actuals - 5) actuals"
  defines "hmean \<equiv> fdiv (foldl fadd (Fin 0) hist) (nat_to_double (length hist))"
    and "rmean \<equiv> fdiv (foldl fadd (Fin 0) recent) (nat_to_double (length recent))"
  defines "hstd \<equiv> Math_sqrt (fdiv (foldl (\<lambda>sum v. fadd sum (fmul (fsub v hmean) (fsub v hmean)))
                                           (Fin 0) hist)
                                    (nat_to_double (length hist)))"
  defines "dev \<equiv> fdiv (fsub hmean rmean) hstd"
  assumes w: "0 < windowSize" and ne: "predictions \<noteq> []"
  shows "detectDrift predictions windowSize =
          (if 0 < length valid \<and> fgt ratio (lit (4 / 5)) then
              \<lparr> driftDetected = True, driftType = Some overestimation, severity = severe,
                recommendation = retrain,
                details = OverestimationAbove80 (fmul ratio (Fin 100)) \<rparr>
           else if 0 < length valid \<and> fgt ratio (lit (3 / 5)) then
              \<lparr> driftDetected = True, driftType = Some overestimation, severity = moderate,
                recommendation = reduce_confidence,
                details = OverestimationAbove60 (fmul ratio (Fin 100)) \<rparr>
           else if 5 \<le> length actuals \<and> 2 \<le> length hist \<and> fgt hstd (Fin 0) \<and> fgt dev (Fin 2) then
              \<lparr> driftDetected = True, driftType = Some engagement_drop,
                severity = (if fgt dev (Fin 3) then severe else moderate),
                recommendation = increase_exploration,
                details = EngagementDropped dev \<rparr>
           else \<lparr> driftDetected = False, driftType = None, severity = sev_none,
                  recommendation = rec_none, details = NoSignificantDrift \<rparr>)"
proof -
  have sl: "slice_last predictions windowSize = window"
    using w by (simp add: slice_last_def window_def)
  have av: "List.map_filter actualValue valid = actuals"
    unfolding valid_def actuals_def by (rule map_filter_filter)
  have s5: "slice_last actuals 5 = recent" by (simp add: slice_last_def recent_def)
  have hm: "mean_of hist = hmean" by (simp add: mean_of_def sum_reduce_def hmean_def)
  have rm: "mean_of recent = rmean" by (simp add: mean_of_def sum_reduce_def rmean_def)
  have hs: "Math_sqrt (variance_of hist hmean) = hstd" by (simp add: variance_of_def hstd_def)
  have n0: "length predictions \<noteq> 0" using ne by simp
  show ?thesis
    unfolding detectDrift_def Let_def sl valid_def [symmetric] av s5
      ratio_def [symmetric] hist_def [symmetric] hm rm hs dev_def [symmetric]
    using n0 by simp
qed

text \<open>
  Logs that reach the engagement-drop rule (each predicts 0, so none is an overestimate).
  Earlier actual values 10 and 12 have the mean 11 and the standard deviation 1: five recent
  values of 1 deviate by 10, recent values of mean 8.5 by 2.5, and recent values of 9 by 2.
  Earlier values 5 and 5 have the standard deviation 0.
\<close>

lemma drift_example_severe:
  "(severity (detectDrift (map (\<lambda>a. drift_entry (Fin 0) (Some a) None)
        [Fin 10, Fin 12, Fin 1, Fin 1, Fin 1, Fin 1, Fin 1]) 10),
    recommendation (detectDrift (map (\<lambda>a. drift_entry (Fin 0) (Some a) None)
        [Fin 10, Fin 12, Fin 1, Fin 1, Fin 1, Fin 1, Fin 1]) 10))
   = (severe, increase_exploration)"
  by code_simp

lemma drift_example_moderate:
  "(severity (detectDrift (map (\<lambda>a. drift_entry (Fin 0) (Some a) None)
        [Fin 10, Fin 12, Fin 8, Fin 9, Fin 8, Fin 9, lit (17 / 2)]) 10),
    recommendation (detectDrift (map (\<lambda>a. drift_entry (Fin 0) (Some a) None)
        [Fin 10, Fin 12, Fin 8, Fin 9, Fin 8, Fin 9, lit (17 / 2)]) 10))
   = (moderate, increase_exploration)"
  by code_simp

lemma drift_example_small_drop:
  "(severity (detectDrift (map (\<lambda>a. drift_entry (Fin 0) (Some a) None)
        [Fin 10, Fin 12, Fin 9, Fin 9, Fin 9, Fin 9, Fin 9]) 10),
    recommendation (detectDrift (map (\<lambda>a. drift_entry (Fin 0) (Some a) None)
        [Fin 10, Fin 12, Fin 9, Fin 9, Fin 9, Fin 9, Fin 9]) 10))
   = (sev_none, rec_none)"
  by code_simp

lemma drift_example_flat_history:
  "(severity (detectDrift (map (\<lambda>a. drift_entry (Fin 0) (Some a) None)
        [Fin 5, Fin 5, Fin 1, Fin 1, Fin 1, Fin 1, Fin 1]) 10),
    recommendation (detectDrift (map (\<lambda>a. drift_entry (Fin 0) (Some a) None)
        [Fin 5, Fin 5, Fin 1, Fin 1, Fin 1, Fin 1, Fin 1]) 10))
   = (sev_none, rec_none)"
  by code_simp

text \<open>
  Claim C4, as stated, fails on the code: the window is cut from all entries, and only then
  are the entries without an actual value left out. In a list of nine validated entries
  without overestimate, then nine entries without an actual value, then one validated
  overestimate, the last ten entries hold one validated entry, the ratio is 1 and the result
  is severe / retrain; of the ten most recent validated entries one is an overestimate, and
  the rules applied to them report no drift.
\<close>

theorem detectDrift_window_before_validation:
  "severity (detectDrift
       (replicate 9 (drift_entry (lit (3 / 10)) (Some (lit (1 / 2))) None)
        @ replicate 9 (drift_entry (lit (9 / 10)) None None)
        @ [drift_entry (lit (9 / 10)) (Some (lit (1 / 2))) None]) 10) = severe
   \<and> recommendation (detectDrift
       (replicate 9 (drift_entry (lit (3 / 10)) (Some (lit (1 / 2))) None)
        @ replicate 9 (drift_entry (lit (9 / 10)) None None)
        @ [drift_entry (lit (9 / 10)) (Some (lit (1 / 2))) None]) 10) = retrain
   \<and> severity (detectDrift_over_validated
       (replicate 9 (drift_entry (lit (3 / 10)) (Some (lit (1 / 2))) None)
        @ replicate 9 (drift_entry (lit (9 / 10)) None None)
        @ [drift_entry (lit (9 / 10)) (Some (lit (1 / 2))) None]) 10) = sev_none
   \<and> length (filter is_overestimate (slice_last (filter (\<lambda>p. actualValue p \<noteq> None)
       (replicate 9 (drift_entry (lit (3 / 10)) (Some (lit (1 / 2))) None)
        @ replicate 9 (drift_entry (lit (9 / 10)) None None)
        @ [drift_entry (lit (9 / 10)) (Some (lit (1 / 2))) None])) 10)) = 1
   \<and> length (slice_last (filter (\<lambda>p. actualValue p \<noteq> None)
       (replicate 9 (drift_entry (lit (3 / 10)) (Some (lit (1 / 2))) None)
        @ replicate 9 (drift_entry (lit (9 / 10)) None None)
        @ [drift_entry (lit (9 / 10)) (Some (lit (1 / 2))) None])) 10) = 10"
  by code_simp

text \<open>
  Claim C4, amended: with a positive window size (10 by default) \<^verbatim>\<open>detectDrift\<close> looks at the
  last \<open>windowSize\<close> entries of the list and, among them, at those with a validated actual
  value. With \<open>ratio\<close> the binary64 quotient of the number of these entries with predicted >
  actual by their number, it reports, in this order: severe / retrain when \<open>ratio > 0.8\<close>;
  else moderate / reduce_confidence when \<open>ratio > 0.6\<close>; else, when at least two actual values
  precede the last five, the standard deviation of those earlier values (the square root of
  the mean of the squared differences from their mean) is above 0 and
  \<open>deviation = (historicalMean - recentMean) / historicalStdDev\<close> exceeds 2, severe if it
  exceeds 3 and moderate otherwise, with increase_exploration; otherwise no drift. On 10
  validated predictions of which 9 have predicted > actual the result is severe / retrain.
  The four sample logs reach the engagement-drop rule with the deviations 10, 2.5 and 2 and
  with the standard deviation 0.
\<close>

theorem detectDrift_spec:
  fixes predictions :: "PredictionLog list" and windowSize :: int
  defines "window \<equiv> drop (length predictions - nat windowSize) predictions"
    and "r \<equiv> detectDrift predictions windowSize"
  defines "valid \<equiv> filter (\<lambda>p. actualValue p \<noteq> None) window"
    and "actuals \<equiv> List.map_filter actualValue window"
  defines "ratio \<equiv> fdiv (nat_to_double (length (filter
                           (\<lambda>p. case actualValue p of None \<Rightarrow> False
                                 | Some a \<Rightarrow> fgt (log_predictedValue p) a) window)))
                         (nat_to_double (length valid))"
    and "hist \<equiv> take (length actuals - 5) actuals"
    and "recent \<equiv> drop (length actuals - 5) actuals"
  defines "hmean \<equiv> fdiv (foldl fadd (Fin 0) hist) (nat_to_double (length hist))"
    and "rmean \<equiv> fdiv (foldl fadd (Fin 0) recent) (nat_to_double (length recent))"
  defines "hstd \<equiv> Math_sqrt (fdiv (foldl (\<lambda>sum v. fadd sum (fmul (fsub v hmean) (fsub v hmean)))
                                           (Fin 0) hist)
                                    (nat_to_double (length hist)))"
  defines "dev \<equiv> fdiv (fsub hmean rmean) hstd"
  assumes w: "0 < windowSize"
  shows "(severity r, recommendation r, driftDetected r) =
          (if valid \<noteq> [] \<and> fgt ratio (lit (4 / 5)) then (severe, retrain, True)
           else if valid \<noteq> [] \<and> fgt ratio (lit (3 / 5)) then (moderate, reduce_confidence, True)
           else if 2 \<le> length hist \<and> fgt hstd (Fin 0) \<and> fgt dev (Fin 2)
             then (if fgt dev (Fin 3) then severe else moderate, increase_exploration, True)
           else (sev_none, rec_none, False))
       \<and> (windowSize = 10 \<and> length predictions = 10
            \<and> (\<forall>p \<in> set predictions. actualValue p \<noteq> None)
            \<and> length (filter (\<lambda>p. case actualValue p of None \<Rightarrow> False
                                 | Some a \<Rightarrow> fgt (log_predictedValue p) a) predictions) = 9
           \<longrightarrow> severity r = severe \<and> recommendation r = retrain)
       \<and> (severity (detectDrift (map (\<lambda>a. drift_entry (Fin 0) (Some a) None)
              [Fin 10, Fin 12, Fin 1, Fin 1, Fin 1, Fin 1, Fin 1]) 10),
          recommendation (detectDrift (map (\<lambda>a. drift_entry (Fin 0) (Some a) None)
              [Fin 10, Fin 12, Fin 1, Fin 1, Fin 1, Fin 1, Fin 1]) 10))
           = (severe, increase_exploration)
       \<and> (severity (detectDrift (map (\<lambda>a. drift_entry (Fin 0) (Some a) None)
              [Fin 10, Fin 12, Fin 8, Fin 9, Fin 8, Fin 9, lit (17 / 2)]) 10),
          recommendation (detectDrift (map (\<lambda>a. drift_entry (Fin 0) (Some a) None)
              [Fin 10, Fin 12, Fin 8, Fin 9, Fin 8, Fin 9, lit (17 / 2)]) 10))
           = (moderate, increase_exploration)
       \<and> (severity (detectDrift (map (\<lambda>a. drift_entry (Fin 0) (Some a) None)
              [Fin 10, Fin 12, Fin 9, Fin 9, Fin 9, Fin 9, Fin 9]) 10),
          recommendation (detectDrift (map (\<lambda>a. drift_entry (Fin 0) (Some a) None)
              [Fin 10, Fin 12, Fin 9, Fin 9, Fin 9, Fin 9, Fin 9]) 10))
           = (sev_none, rec_none)
       \<and> (severity (detectDrift (map (\<lambda>a. drift_entry (Fin 0) (Some a) None)
              [Fin 5, Fin 5, Fin 1, Fin 1, Fin 1, Fin 1, Fin 1]) 10),
          recommendation (detectDrift (map (\<lambda>a. drift_entry (Fin 0) (Some a) None)
              [Fin 5, Fin 5, Fin 1, Fin 1, Fin 1, Fin 1, Fin 1]) 10))
           = (sev_none, rec_none)"
proof -
  have io: "(\<lambda>p. case actualValue p of None \<Rightarrow> False
                 | Some a \<Rightarrow> fgt (log_predictedValue p) a) = is_overestimate"
    by (rule ext) (simp add: is_overestimate_def)
  let ?rhs = "(if valid \<noteq> [] \<and> fgt ratio (lit (4 / 5)) then (severe, retrain, True)
           else if valid \<noteq> [] \<and> fgt ratio (lit (3 / 5)) then (moderate, reduce_confidence, True)
           else if 2 \<le> length hist \<and> fgt hstd (Fin 0) \<and> fgt dev (Fin 2)
             then (if fgt dev (Fin 3) then severe else moderate, increase_exploration, True)
           else (sev_none, rec_none, False))"
  have main: "(severity r, recommendation r, driftDetected r) = ?rhs"
  proof (cases "predictions = []")
    case True
    then have e: "valid = []" "hist = []"
      by (simp_all add: valid_def window_def hist_def actuals_def List.map_filter_simps)
    from True have "r = \<lparr> driftDetected = False, driftType = None, severity = sev_none,
                     recommendation = rec_none, details = NoDetails \<rparr>"
      by (simp add: r_def detectDrift_def Let_def)
    with e show ?thesis by simp
  next
    case False
    note u = detectDrift_unfold [OF w False, folded window_def, folded valid_def actuals_def,
        folded io, folded ratio_def hist_def recent_def, folded hmean_def rmean_def,
        folded hstd_def, folded dev_def, folded r_def]
    have h5: "2 \<le> length hist \<Longrightarrow> 5 \<le> length actuals" by (simp add: hist_def)
    consider (a) "valid \<noteq> [] \<and> fgt ratio (lit (4 / 5))"
      | (b) "\<not> (valid \<noteq> [] \<and> fgt ratio (lit (4 / 5)))" "valid \<noteq> [] \<and> fgt ratio (lit (3 / 5))"
      | (c) "\<not> (valid \<noteq> [] \<and> fgt ratio (lit (4 / 5)))"
            "\<not> (valid \<noteq> [] \<and> fgt ratio (lit (3 / 5)))"
            "2 \<le> length hist \<and> fgt hstd (Fin 0) \<and> fgt dev (Fin 2)"
      | (d) "\<not> (valid \<noteq> [] \<and> fgt ratio (lit (4 / 5)))"
            "\<not> (valid \<noteq> [] \<and> fgt ratio (lit (3 / 5)))"
            "\<not> (2 \<le> length hist \<and> fgt hstd (Fin 0) \<and> fgt dev (Fin 2))"
      by blast
    then show ?thesis
    proof cases
      case a
      then have "r = \<lparr> driftDetected = True, driftType = Some overestimation, severity = severe,
                recommendation = retrain,
                details = OverestimationAbove80 (fmul ratio (Fin 100)) \<rparr>"
        by (simp add: u)
      with a show ?thesis by simp
    next
      case b
      then have "r = \<lparr> driftDetected = True, driftType = Some overestimation, severity = moderate,
                recommendation = reduce_confidence,
                details = OverestimationAbove60 (fmul ratio (Fin 100)) \<rparr>"
        by (simp add: u)
      with b show ?thesis by simp
    next
      case c
      with h5 have "r = \<lparr> driftDetected = True, driftType = Some engagement_drop,
                severity = (if fgt dev (Fin 3) then severe else moderate),
                recommendation = increase_exploration,
                details = EngagementDropped dev \<rparr>"
        by (simp add: u)
      with c show ?thesis by simp
    next
      case d
      then have "r = \<lparr> driftDetected = False, driftType = None, severity = sev_none,
                  recommendation = rec_none, details = NoSignificantDrift \<rparr>"
        by (auto simp add: u)
      with d show ?thesis by simp
    qed
  qed
  have part: "severity r = severe \<and> recommendation r = retrain"
    if p: "windowSize = 10" "length predictions = 10"
      "\<forall>p \<in> set predictions. actualValue p \<noteq> None"
      "length (filter (\<lambda>p. case actualValue p of None \<Rightarrow> False
                                 | Some a \<Rightarrow> fgt (log_predictedValue p) a) predictions) = 9"
  proof -
    from p have win: "window = predictions" by (simp add: window_def)
    from p have v: "valid = predictions" unfolding valid_def win by simp
    have "ratio = fdiv (nat_to_double 9) (nat_to_double 10)"
      unfolding ratio_def v win using p by simp
    with ratio_9_10 have "fgt ratio (lit (4 / 5))" by simp
    moreover from v p have "valid \<noteq> []" by auto
    ultimately show ?thesis using main by simp
  qed
  note ex = drift_example_severe drift_example_moderate drift_example_small_drop
    drift_example_flat_history
  from part have part': "windowSize = 10 \<and> length predictions = 10
            \<and> (\<forall>p \<in> set predictions. actualValue p \<noteq> None)
            \<and> length (filter (\<lambda>p. case actualValue p of None \<Rightarrow> False
                                 | Some a \<Rightarrow> fgt (log_predictedValue p) a) predictions) = 9
           \<longrightarrow> severity r = severe \<and> recommendation r = retrain"
    by blast
  show ?thesis by (intro conjI main part' ex)
qed

text \<open>
  Witness for C4: ten validated logs, nine predicting 0.9 against an actual 0.5 and one
  predicting 0.3, with the default window of 10.
\<close>

theorem detectDrift_spec_witness:
  "(0::int) < 10
   \<and> length (replicate 9 (drift_entry (lit (9 / 10)) (Some (lit (1 / 2))) None)
          @ [drift_entry (lit (3 / 10)) (Some (lit (1 / 2))) None]) = 10
   \<and> list_all (\<lambda>p. actualValue p \<noteq> None) (replicate 9 (drift_entry (lit (9 / 10)) (Some (lit (1 / 2))) None)
          @ [drift_entry (lit (3 / 10)) (Some (lit (1 / 2))) None])
   \<and> length (filter (\<lambda>p. case actualValue p of None \<Rightarrow> False
                      | Some a \<Rightarrow> fgt (log_predictedValue p) a) (replicate 9 (drift_entry (lit (9 / 10)) (Some (lit (1 / 2))) None)
          @ [drift_entry (lit (3 / 10)) (Some (lit (1 / 2))) None])) = 9
   \<and> severity (detectDrift (replicate 9 (drift_entry (lit (9 / 10)) (Some (lit (1 / 2))) None)
          @ [drift_entry (lit (3 / 10)) (Some (lit (1 / 2))) None]) 10) = severe
   \<and> recommendation (detectDrift (replicate 9 (drift_entry (lit (9 / 10)) (Some (lit (1 / 2))) None)
          @ [drift_entry (lit (3 / 10)) (Some (lit (1 / 2))) None]) 10) = retrain"
proof -
  let ?L = "(replicate 9 (drift_entry (lit (9 / 10)) (Some (lit (1 / 2))) None)
          @ [drift_entry (lit (3 / 10)) (Some (lit (1 / 2))) None])"
  have h0: "(0::int) < 10" by simp
  have h1: "length ?L = 10" by simp
  have h2: "\<forall>p \<in> set ?L. actualValue p \<noteq> None" by (auto simp: drift_entry_def)
  have h3: "length (filter (\<lambda>p. case actualValue p of None \<Rightarrow> False
                      | Some a \<Rightarrow> fgt (log_predictedValue p) a) ?L) = 9"
    by code_simp
  from detectDrift_spec [OF h0, where predictions = ?L, THEN conjunct2, THEN conjunct1] h1 h2 h3
  have "severity (detectDrift ?L 10) = severe \<and> recommendation (detectDrift ?L 10) = retrain"
    by blast
  moreover from h2 have "list_all (\<lambda>p. actualValue p \<noteq> None) ?L"
    by (simp only: list_all_iff)
  ultimately show ?thesis using h0 h1 h3 by blast
qed

section \<open>Properties of \<^verbatim>\<open>computePearsonCorrelation\<close>\<close>

lemma pearson_degenerate:
  "length x \<noteq> length y \<or> x = [] \<Longrightarrow> computePearsonCorrelation x y = Fin 0"
  by (auto simp: computePearsonCorrelation_def)

lemma clamp11_range:
  "Math_max (Fin (- 1)) (Math_min (Fin 1) q) = NaN
   \<or> (fle (Fin (- 1)) (Math_max (Fin (- 1)) (Math_min (Fin 1) q))
       \<and> fle (Math_max (Fin (- 1)) (Math_min (Fin 1) q)) (Fin 1))"
  by (cases q) (auto simp: Math_max_def Math_min_def fle_def feq_def)

lemma pearson_range:
  "computePearsonCorrelation x y = NaN
   \<or> (fle (Fin (- 1)) (computePearsonCorrelation x y)
       \<and> fle (computePearsonCorrelation x y) (Fin 1))"
proof -
  have z: "fle (Fin (- 1)) (Fin 0) \<and> fle (Fin 0) (Fin 1)" by (simp add: fle_def)
  show ?thesis
    unfolding computePearsonCorrelation_def Let_def
    using z clamp11_range by (simp split: prod.splits)
qed

lemma pearson_example_pos:
  "computePearsonCorrelation [Fin 1, Fin 2, Fin 3] [Fin 2, Fin 4, Fin 6] = Fin 1"
  by code_simp

lemma pearson_example_neg:
  "computePearsonCorrelation [Fin 1, Fin 2, Fin 3] [Fin 3, Fin 2, Fin 1] = Fin (- 1)"
  by code_simp

text \<open>
  Claim C9 at the failing input: for the constant series \<open>[0.1, 0.1, 0.1]\<close> the computed mean
  is \<^verbatim>\<open>0.10000000000000002\<close>, the deviations from it are not zero, and the correlation of the
  series with itself comes out as 1, not 0.
\<close>

theorem pearson_constant_series_not_zero:
  "computePearsonCorrelation [lit (1 / 10), lit (1 / 10), lit (1 / 10)]
     [lit (1 / 10), lit (1 / 10), lit (1 / 10)] = Fin 1
   \<and> mean_of [lit (1 / 10), lit (1 / 10), lit (1 / 10)]
       = Fin (7205759403792795 / 72057594037927936)
   \<and> lit (1 / 10) = Fin (3602879701896397 / 36028797018963968)"
  by code_simp

text \<open>
  Witness for C9: at this input the two series have the same non-zero length, so neither
  early return applies, and the result is not 0.
\<close>

theorem pearson_constant_series_not_zero_witness:
  "length [lit (1 / 10), lit (1 / 10), lit (1 / 10)]
     = length [lit (1 / 10), lit (1 / 10), lit (1 / 10)]
   \<and> length [lit (1 / 10), lit (1 / 10), lit (1 / 10)] \<noteq> 0
   \<and> computePearsonCorrelation [lit (1 / 10), lit (1 / 10), lit (1 / 10)]
         [lit (1 / 10), lit (1 / 10), lit (1 / 10)] \<noteq> Fin 0"
proof -
  have "computePearsonCorrelation [lit (1 / 10), lit (1 / 10), lit (1 / 10)]
          [lit (1 / 10), lit (1 / 10), lit (1 / 10)] = Fin 1"
    by (rule conjunct1 [OF pearson_constant_series_not_zero])
  then show ?thesis by simp
qed

end
